theory Spec2Isabelle
  imports Main "HOL-Library.Sublist" "HOL-Library.AList"
begin

section \<open>Python strings and dictionaries\<close>

text \<open>
  The strings that the program only builds, compares and searches (names and values of
  environment variables, URLs, the XML document, messages) are modelled as \<open>string\<close>, a
  \<open>dict\<close> with string keys as an association list in insertion order.

  The text of a response is the one string on which the program calls \<open>str.upper\<close>, whose
  result depends on the Unicode character at every position. It is modelled as the list of
  its code points (\<open>ustr\<close>); \<open>codes\<close> gives the code points of a string literal of the
  program.
\<close>

type_synonym dict = "(string \<times> string) list"

type_synonym ustr = "nat list"

definition codes :: "string \<Rightarrow> ustr" where
  "codes s = map of_char s"

text \<open>
  \<open>str.upper\<close> replaces each character by its full uppercase mapping, one character at a
  time and whatever its neighbours; the mapping of one character may be several characters
  (\<open>U+00DF\<close>, the sharp s, becomes \<open>SS\<close>). The tables below list, by code point in decimal,
  every character outside ASCII that \<open>str.upper\<close> changes, with the code points that
  replace it (Unicode 14.0, the character database of CPython 3.11), in the order of the
  code points and in parts of 64 entries.
\<close>

definition upper_table_1 :: "(nat \<times> nat list) list" where
  "upper_table_1 =
    [(181, [924]), (223, [83, 83]), (224, [192]), (225, [193]), (226, [194]), (227, [195]),
     (228, [196]), (229, [197]), (230, [198]), (231, [199]), (232, [200]), (233, [201]),
     (234, [202]), (235, [203]), (236, [204]), (237, [205]), (238, [206]), (239, [207]),
     (240, [208]), (241, [209]), (242, [210]), (243, [211]), (244, [212]), (245, [213]),
     (246, [214]), (248, [216]), (249, [217]), (250, [218]), (251, [219]), (252, [220]),
     (253, [221]), (254, [222]), (255, [376]), (257, [256]), (259, [258]), (261, [260]),
     (263, [262]), (265, [264]), (267, [266]), (269, [268]), (271, [270]), (273, [272]),
     (275, [274]), (277, [276]), (279, [278]), (281, [280]), (283, [282]), (285, [284]),
     (287, [286]), (289, [288]), (291, [290]), (293, [292]), (295, [294]), (297, [296]),
     (299, [298]), (301, [300]), (303, [302]), (305, [73]), (307, [306]), (309, [308]),
     (311, [310]), (314, [313]), (316, [315]), (318, [317])]"

definition upper_table_2 :: "(nat \<times> nat list) list" where
  "upper_table_2 =
    [(320, [319]), (322, [321]), (324, [323]), (326, [325]), (328, [327]), (329, [700, 78]),
     (331, [330]), (333, [332]), (335, [334]), (337, [336]), (339, [338]), (341, [340]),
     (343, [342]), (345, [344]), (347, [346]), (349, [348]), (351, [350]), (353, [352]),
     (355, [354]), (357, [356]), (359, [358]), (361, [360]), (363, [362]), (365, [364]),
     (367, [366]), (369, [368]), (371, [370]), (373, [372]), (375, [374]), (378, [377]),
     (380, [379]), (382, [381]), (383, [83]), (384, [579]), (387, [386]), (389, [388]),
     (392, [391]), (396, [395]), (402, [401]), (405, [502]), (409, [408]), (410, [573]),
     (414, [544]), (417, [416]), (419, [418]), (421, [420]), (424, [423]), (429, [428]),
     (432, [431]), (436, [435]), (438, [437]), (441, [440]), (445, [444]), (447, [503]),
     (453, [452]), (454, [452]), (456, [455]), (457, [455]), (459, [458]), (460, [458]),
     (462, [461]), (464, [463]), (466, [465]), (468, [467])]"

definition upper_table_3 :: "(nat \<times> nat list) list" where
  "upper_table_3 =
    [(470, [469]), (472, [471]), (474, [473]), (476, [475]), (477, [398]), (479, [478]),
     (481, [480]), (483, [482]), (485, [484]), (487, [486]), (489, [488]), (491, [490]),
     (493, [492]), (495, [494]), (496, [74, 780]), (498, [497]), (499, [497]), (501, [500]),
     (505, [504]), (507, [506]), (509, [508]), (511, [510]), (513, [512]), (515, [514]),
     (517, [516]), (519, [518]), (521, [520]), (523, [522]), (525, [524]), (527, [526]),
     (529, [528]), (531, [530]), (533, [532]), (535, [534]), (537, [536]), (539, [538]),
     (541, [540]), (543, [542]), (547, [546]), (549, [548]), (551, [550]), (553, [552]),
     (555, [554]), (557, [556]), (559, [558]), (561, [560]), (563, [562]), (572, [571]),
     (575, [11390]), (576, [11391]), (578, [577]), (583, [582]), (585, [584]), (587, [586]),
     (589, [588]), (591, [590]), (592, [11375]), (593, [11373]), (594, [11376]), (595, [385]),
     (596, [390]), (598, [393]), (599, [394]), (601, [399])]"

definition upper_table_4 :: "(nat \<times> nat list) list" where
  "upper_table_4 =
    [(603, [400]), (604, [42923]), (608, [403]), (609, [42924]), (611, [404]), (613, [42893]),
     (614, [42922]), (616, [407]), (617, [406]), (618, [42926]), (619, [11362]), (620, [42925]),
     (623, [412]), (625, [11374]), (626, [413]), (629, [415]), (637, [11364]), (640, [422]),
     (642, [42949]), (643, [425]), (647, [42929]), (648, [430]), (649, [580]), (650, [433]),
     (651, [434]), (652, [581]), (658, [439]), (669, [42930]), (670, [42928]), (837, [921]),
     (881, [880]), (883, [882]), (887, [886]), (891, [1021]), (892, [1022]), (893, [1023]),
     (912, [921, 776, 769]), (940, [902]), (941, [904]), (942, [905]), (943, [906]),
     (944, [933, 776, 769]), (945, [913]), (946, [914]), (947, [915]), (948, [916]),
     (949, [917]), (950, [918]), (951, [919]), (952, [920]), (953, [921]), (954, [922]),
     (955, [923]), (956, [924]), (957, [925]), (958, [926]), (959, [927]), (960, [928]),
     (961, [929]), (962, [931]), (963, [931]), (964, [932]), (965, [933]), (966, [934])]"

definition upper_table_5 :: "(nat \<times> nat list) list" where
  "upper_table_5 =
    [(967, [935]), (968, [936]), (969, [937]), (970, [938]), (971, [939]), (972, [908]),
     (973, [910]), (974, [911]), (976, [914]), (977, [920]), (981, [934]), (982, [928]),
     (983, [975]), (985, [984]), (987, [986]), (989, [988]), (991, [990]), (993, [992]),
     (995, [994]), (997, [996]), (999, [998]), (1001, [1000]), (1003, [1002]), (1005, [1004]),
     (1007, [1006]), (1008, [922]), (1009, [929]), (1010, [1017]), (1011, [895]), (1013, [917]),
     (1016, [1015]), (1019, [1018]), (1072, [1040]), (1073, [1041]), (1074, [1042]),
     (1075, [1043]), (1076, [1044]), (1077, [1045]), (1078, [1046]), (1079, [1047]),
     (1080, [1048]), (1081, [1049]), (1082, [1050]), (1083, [1051]), (1084, [1052]),
     (1085, [1053]), (1086, [1054]), (1087, [1055]), (1088, [1056]), (1089, [1057]),
     (1090, [1058]), (1091, [1059]), (1092, [1060]), (1093, [1061]), (1094, [1062]),
     (1095, [1063]), (1096, [1064]), (1097, [1065]), (1098, [1066]), (1099, [1067]),
     (1100, [1068]), (1101, [1069]), (1102, [1070]), (1103, [1071])]"

definition upper_table_6 :: "(nat \<times> nat list) list" where
  "upper_table_6 =
    [(1104, [1024]), (1105, [1025]), (1106, [1026]), (1107, [1027]), (1108, [1028]),
     (1109, [1029]), (1110, [1030]), (1111, [1031]), (1112, [1032]), (1113, [1033]),
     (1114, [1034]), (1115, [1035]), (1116, [1036]), (1117, [1037]), (1118, [1038]),
     (1119, [1039]), (1121, [1120]), (1123, [1122]), (1125, [1124]), (1127, [1126]),
     (1129, [1128]), (1131, [1130]), (1133, [1132]), (1135, [1134]), (1137, [1136]),
     (1139, [1138]), (1141, [1140]), (1143, [1142]), (1145, [1144]), (1147, [1146]),
     (1149, [1148]), (1151, [1150]), (1153, [1152]), (1163, [1162]), (1165, [1164]),
     (1167, [1166]), (1169, [1168]), (1171, [1170]), (1173, [1172]), (1175, [1174]),
     (1177, [1176]), (1179, [1178]), (1181, [1180]), (1183, [1182]), (1185, [1184]),
     (1187, [1186]), (1189, [1188]), (1191, [1190]), (1193, [1192]), (1195, [1194]),
     (1197, [1196]), (1199, [1198]), (1201, [1200]), (1203, [1202]), (1205, [1204]),
     (1207, [1206]), (1209, [1208]), (1211, [1210]), (1213, [1212]), (1215, [1214]),
     (1218, [1217]), (1220, [1219]), (1222, [1221]), (1224, [1223])]"

definition upper_table_7 :: "(nat \<times> nat list) list" where
  "upper_table_7 =
    [(1226, [1225]), (1228, [1227]), (1230, [1229]), (1231, [1216]), (1233, [1232]),
     (1235, [1234]), (1237, [1236]), (1239, [1238]), (1241, [1240]), (1243, [1242]),
     (1245, [1244]), (1247, [1246]), (1249, [1248]), (1251, [1250]), (1253, [1252]),
     (1255, [1254]), (1257, [1256]), (1259, [1258]), (1261, [1260]), (1263, [1262]),
     (1265, [1264]), (1267, [1266]), (1269, [1268]), (1271, [1270]), (1273, [1272]),
     (1275, [1274]), (1277, [1276]), (1279, [1278]), (1281, [1280]), (1283, [1282]),
     (1285, [1284]), (1287, [1286]), (1289, [1288]), (1291, [1290]), (1293, [1292]),
     (1295, [1294]), (1297, [1296]), (1299, [1298]), (1301, [1300]), (1303, [1302]),
     (1305, [1304]), (1307, [1306]), (1309, [1308]), (1311, [1310]), (1313, [1312]),
     (1315, [1314]), (1317, [1316]), (1319, [1318]), (1321, [1320]), (1323, [1322]),
     (1325, [1324]), (1327, [1326]), (1377, [1329]), (1378, [1330]), (1379, [1331]),
     (1380, [1332]), (1381, [1333]), (1382, [1334]), (1383, [1335]), (1384, [1336]),
     (1385, [1337]), (1386, [1338]), (1387, [1339]), (1388, [1340])]"

definition upper_table_8 :: "(nat \<times> nat list) list" where
  "upper_table_8 =
    [(1389, [1341]), (1390, [1342]), (1391, [1343]), (1392, [1344]), (1393, [1345]),
     (1394, [1346]), (1395, [1347]), (1396, [1348]), (1397, [1349]), (1398, [1350]),
     (1399, [1351]), (1400, [1352]), (1401, [1353]), (1402, [1354]), (1403, [1355]),
     (1404, [1356]), (1405, [1357]), (1406, [1358]), (1407, [1359]), (1408, [1360]),
     (1409, [1361]), (1410, [1362]), (1411, [1363]), (1412, [1364]), (1413, [1365]),
     (1414, [1366]), (1415, [1333, 1362]), (4304, [7312]), (4305, [7313]), (4306, [7314]),
     (4307, [7315]), (4308, [7316]), (4309, [7317]), (4310, [7318]), (4311, [7319]),
     (4312, [7320]), (4313, [7321]), (4314, [7322]), (4315, [7323]), (4316, [7324]),
     (4317, [7325]), (4318, [7326]), (4319, [7327]), (4320, [7328]), (4321, [7329]),
     (4322, [7330]), (4323, [7331]), (4324, [7332]), (4325, [7333]), (4326, [7334]),
     (4327, [7335]), (4328, [7336]), (4329, [7337]), (4330, [7338]), (4331, [7339]),
     (4332, [7340]), (4333, [7341]), (4334, [7342]), (4335, [7343]), (4336, [7344]),
     (4337, [7345]), (4338, [7346]), (4339, [7347]), (4340, [7348])]"

definition upper_table_9 :: "(nat \<times> nat list) list" where
  "upper_table_9 =
    [(4341, [7349]), (4342, [7350]), (4343, [7351]), (4344, [7352]), (4345, [7353]),
     (4346, [7354]), (4349, [7357]), (4350, [7358]), (4351, [7359]), (5112, [5104]),
     (5113, [5105]), (5114, [5106]), (5115, [5107]), (5116, [5108]), (5117, [5109]),
     (7296, [1042]), (7297, [1044]), (7298, [1054]), (7299, [1057]), (7300, [1058]),
     (7301, [1058]), (7302, [1066]), (7303, [1122]), (7304, [42570]), (7545, [42877]),
     (7549, [11363]), (7566, [42950]), (7681, [7680]), (7683, [7682]), (7685, [7684]),
     (7687, [7686]), (7689, [7688]), (7691, [7690]), (7693, [7692]), (7695, [7694]),
     (7697, [7696]), (7699, [7698]), (7701, [7700]), (7703, [7702]), (7705, [7704]),
     (7707, [7706]), (7709, [7708]), (7711, [7710]), (7713, [7712]), (7715, [7714]),
     (7717, [7716]), (7719, [7718]), (7721, [7720]), (7723, [7722]), (7725, [7724]),
     (7727, [7726]), (7729, [7728]), (7731, [7730]), (7733, [7732]), (7735, [7734]),
     (7737, [7736]), (7739, [7738]), (7741, [7740]), (7743, [7742]), (7745, [7744]),
     (7747, [7746]), (7749, [7748]), (7751, [7750]), (7753, [7752])]"

definition upper_table_10 :: "(nat \<times> nat list) list" where
  "upper_table_10 =
    [(7755, [7754]), (7757, [7756]), (7759, [7758]), (7761, [7760]), (7763, [7762]),
     (7765, [7764]), (7767, [7766]), (7769, [7768]), (7771, [7770]), (7773, [7772]),
     (7775, [7774]), (7777, [7776]), (7779, [7778]), (7781, [7780]), (7783, [7782]),
     (7785, [7784]), (7787, [7786]), (7789, [7788]), (7791, [7790]), (7793, [7792]),
     (7795, [7794]), (7797, [7796]), (7799, [7798]), (7801, [7800]), (7803, [7802]),
     (7805, [7804]), (7807, [7806]), (7809, [7808]), (7811, [7810]), (7813, [7812]),
     (7815, [7814]), (7817, [7816]), (7819, [7818]), (7821, [7820]), (7823, [7822]),
     (7825, [7824]), (7827, [7826]), (7829, [7828]), (7830, [72, 817]), (7831, [84, 776]),
     (7832, [87, 778]), (7833, [89, 778]), (7834, [65, 702]), (7835, [7776]), (7841, [7840]),
     (7843, [7842]), (7845, [7844]), (7847, [7846]), (7849, [7848]), (7851, [7850]),
     (7853, [7852]), (7855, [7854]), (7857, [7856]), (7859, [7858]), (7861, [7860]),
     (7863, [7862]), (7865, [7864]), (7867, [7866]), (7869, [7868]), (7871, [7870]),
     (7873, [7872]), (7875, [7874]), (7877, [7876]), (7879, [7878])]"

definition upper_table_11 :: "(nat \<times> nat list) list" where
  "upper_table_11 =
    [(7881, [7880]), (7883, [7882]), (7885, [7884]), (7887, [7886]), (7889, [7888]),
     (7891, [7890]), (7893, [7892]), (7895, [7894]), (7897, [7896]), (7899, [7898]),
     (7901, [7900]), (7903, [7902]), (7905, [7904]), (7907, [7906]), (7909, [7908]),
     (7911, [7910]), (7913, [7912]), (7915, [7914]), (7917, [7916]), (7919, [7918]),
     (7921, [7920]), (7923, [7922]), (7925, [7924]), (7927, [7926]), (7929, [7928]),
     (7931, [7930]), (7933, [7932]), (7935, [7934]), (7936, [7944]), (7937, [7945]),
     (7938, [7946]), (7939, [7947]), (7940, [7948]), (7941, [7949]), (7942, [7950]),
     (7943, [7951]), (7952, [7960]), (7953, [7961]), (7954, [7962]), (7955, [7963]),
     (7956, [7964]), (7957, [7965]), (7968, [7976]), (7969, [7977]), (7970, [7978]),
     (7971, [7979]), (7972, [7980]), (7973, [7981]), (7974, [7982]), (7975, [7983]),
     (7984, [7992]), (7985, [7993]), (7986, [7994]), (7987, [7995]), (7988, [7996]),
     (7989, [7997]), (7990, [7998]), (7991, [7999]), (8000, [8008]), (8001, [8009]),
     (8002, [8010]), (8003, [8011]), (8004, [8012]), (8005, [8013])]"

definition upper_table_12 :: "(nat \<times> nat list) list" where
  "upper_table_12 =
    [(8016, [933, 787]), (8017, [8025]), (8018, [933, 787, 768]), (8019, [8027]),
     (8020, [933, 787, 769]), (8021, [8029]), (8022, [933, 787, 834]), (8023, [8031]),
     (8032, [8040]), (8033, [8041]), (8034, [8042]), (8035, [8043]), (8036, [8044]),
     (8037, [8045]), (8038, [8046]), (8039, [8047]), (8048, [8122]), (8049, [8123]),
     (8050, [8136]), (8051, [8137]), (8052, [8138]), (8053, [8139]), (8054, [8154]),
     (8055, [8155]), (8056, [8184]), (8057, [8185]), (8058, [8170]), (8059, [8171]),
     (8060, [8186]), (8061, [8187]), (8064, [7944, 921]), (8065, [7945, 921]),
     (8066, [7946, 921]), (8067, [7947, 921]), (8068, [7948, 921]), (8069, [7949, 921]),
     (8070, [7950, 921]), (8071, [7951, 921]), (8072, [7944, 921]), (8073, [7945, 921]),
     (8074, [7946, 921]), (8075, [7947, 921]), (8076, [7948, 921]), (8077, [7949, 921]),
     (8078, [7950, 921]), (8079, [7951, 921]), (8080, [7976, 921]), (8081, [7977, 921]),
     (8082, [7978, 921]), (8083, [7979, 921]), (8084, [7980, 921]), (8085, [7981, 921]),
     (8086, [7982, 921]), (8087, [7983, 921]), (8088, [7976, 921]), (8089, [7977, 921]),
     (8090, [7978, 921]), (8091, [7979, 921]), (8092, [7980, 921]), (8093, [7981, 921]),
     (8094, [7982, 921]), (8095, [7983, 921]), (8096, [8040, 921]), (8097, [8041, 921])]"

definition upper_table_13 :: "(nat \<times> nat list) list" where
  "upper_table_13 =
    [(8098, [8042, 921]), (8099, [8043, 921]), (8100, [8044, 921]), (8101, [8045, 921]),
     (8102, [8046, 921]), (8103, [8047, 921]), (8104, [8040, 921]), (8105, [8041, 921]),
     (8106, [8042, 921]), (8107, [8043, 921]), (8108, [8044, 921]), (8109, [8045, 921]),
     (8110, [8046, 921]), (8111, [8047, 921]), (8112, [8120]), (8113, [8121]),
     (8114, [8122, 921]), (8115, [913, 921]), (8116, [902, 921]), (8118, [913, 834]),
     (8119, [913, 834, 921]), (8124, [913, 921]), (8126, [921]), (8130, [8138, 921]),
     (8131, [919, 921]), (8132, [905, 921]), (8134, [919, 834]), (8135, [919, 834, 921]),
     (8140, [919, 921]), (8144, [8152]), (8145, [8153]), (8146, [921, 776, 768]),
     (8147, [921, 776, 769]), (8150, [921, 834]), (8151, [921, 776, 834]), (8160, [8168]),
     (8161, [8169]), (8162, [933, 776, 768]), (8163, [933, 776, 769]), (8164, [929, 787]),
     (8165, [8172]), (8166, [933, 834]), (8167, [933, 776, 834]), (8178, [8186, 921]),
     (8179, [937, 921]), (8180, [911, 921]), (8182, [937, 834]), (8183, [937, 834, 921]),
     (8188, [937, 921]), (8526, [8498]), (8560, [8544]), (8561, [8545]), (8562, [8546]),
     (8563, [8547]), (8564, [8548]), (8565, [8549]), (8566, [8550]), (8567, [8551]),
     (8568, [8552]), (8569, [8553]), (8570, [8554]), (8571, [8555]), (8572, [8556]),
     (8573, [8557])]"

definition upper_table_14 :: "(nat \<times> nat list) list" where
  "upper_table_14 =
    [(8574, [8558]), (8575, [8559]), (8580, [8579]), (9424, [9398]), (9425, [9399]),
     (9426, [9400]), (9427, [9401]), (9428, [9402]), (9429, [9403]), (9430, [9404]),
     (9431, [9405]), (9432, [9406]), (9433, [9407]), (9434, [9408]), (9435, [9409]),
     (9436, [9410]), (9437, [9411]), (9438, [9412]), (9439, [9413]), (9440, [9414]),
     (9441, [9415]), (9442, [9416]), (9443, [9417]), (9444, [9418]), (9445, [9419]),
     (9446, [9420]), (9447, [9421]), (9448, [9422]), (9449, [9423]), (11312, [11264]),
     (11313, [11265]), (11314, [11266]), (11315, [11267]), (11316, [11268]), (11317, [11269]),
     (11318, [11270]), (11319, [11271]), (11320, [11272]), (11321, [11273]), (11322, [11274]),
     (11323, [11275]), (11324, [11276]), (11325, [11277]), (11326, [11278]), (11327, [11279]),
     (11328, [11280]), (11329, [11281]), (11330, [11282]), (11331, [11283]), (11332, [11284]),
     (11333, [11285]), (11334, [11286]), (11335, [11287]), (11336, [11288]), (11337, [11289]),
     (11338, [11290]), (11339, [11291]), (11340, [11292]), (11341, [11293]), (11342, [11294]),
     (11343, [11295]), (11344, [11296]), (11345, [11297]), (11346, [11298])]"

definition upper_table_15 :: "(nat \<times> nat list) list" where
  "upper_table_15 =
    [(11347, [11299]), (11348, [11300]), (11349, [11301]), (11350, [11302]), (11351, [11303]),
     (11352, [11304]), (11353, [11305]), (11354, [11306]), (11355, [11307]), (11356, [11308]),
     (11357, [11309]), (11358, [11310]), (11359, [11311]), (11361, [11360]), (11365, [570]),
     (11366, [574]), (11368, [11367]), (11370, [11369]), (11372, [11371]), (11379, [11378]),
     (11382, [11381]), (11393, [11392]), (11395, [11394]), (11397, [11396]), (11399, [11398]),
     (11401, [11400]), (11403, [11402]), (11405, [11404]), (11407, [11406]), (11409, [11408]),
     (11411, [11410]), (11413, [11412]), (11415, [11414]), (11417, [11416]), (11419, [11418]),
     (11421, [11420]), (11423, [11422]), (11425, [11424]), (11427, [11426]), (11429, [11428]),
     (11431, [11430]), (11433, [11432]), (11435, [11434]), (11437, [11436]), (11439, [11438]),
     (11441, [11440]), (11443, [11442]), (11445, [11444]), (11447, [11446]), (11449, [11448]),
     (11451, [11450]), (11453, [11452]), (11455, [11454]), (11457, [11456]), (11459, [11458]),
     (11461, [11460]), (11463, [11462]), (11465, [11464]), (11467, [11466]), (11469, [11468]),
     (11471, [11470]), (11473, [11472]), (11475, [11474]), (11477, [11476])]"

definition upper_table_16 :: "(nat \<times> nat list) list" where
  "upper_table_16 =
    [(11479, [11478]), (11481, [11480]), (11483, [11482]), (11485, [11484]), (11487, [11486]),
     (11489, [11488]), (11491, [11490]), (11500, [11499]), (11502, [11501]), (11507, [11506]),
     (11520, [4256]), (11521, [4257]), (11522, [4258]), (11523, [4259]), (11524, [4260]),
     (11525, [4261]), (11526, [4262]), (11527, [4263]), (11528, [4264]), (11529, [4265]),
     (11530, [4266]), (11531, [4267]), (11532, [4268]), (11533, [4269]), (11534, [4270]),
     (11535, [4271]), (11536, [4272]), (11537, [4273]), (11538, [4274]), (11539, [4275]),
     (11540, [4276]), (11541, [4277]), (11542, [4278]), (11543, [4279]), (11544, [4280]),
     (11545, [4281]), (11546, [4282]), (11547, [4283]), (11548, [4284]), (11549, [4285]),
     (11550, [4286]), (11551, [4287]), (11552, [4288]), (11553, [4289]), (11554, [4290]),
     (11555, [4291]), (11556, [4292]), (11557, [4293]), (11559, [4295]), (11565, [4301]),
     (42561, [42560]), (42563, [42562]), (42565, [42564]), (42567, [42566]), (42569, [42568]),
     (42571, [42570]), (42573, [42572]), (42575, [42574]), (42577, [42576]), (42579, [42578]),
     (42581, [42580]), (42583, [42582]), (42585, [42584]), (42587, [42586])]"

definition upper_table_17 :: "(nat \<times> nat list) list" where
  "upper_table_17 =
    [(42589, [42588]), (42591, [42590]), (42593, [42592]), (42595, [42594]), (42597, [42596]),
     (42599, [42598]), (42601, [42600]), (42603, [42602]), (42605, [42604]), (42625, [42624]),
     (42627, [42626]), (42629, [42628]), (42631, [42630]), (42633, [42632]), (42635, [42634]),
     (42637, [42636]), (42639, [42638]), (42641, [42640]), (42643, [42642]), (42645, [42644]),
     (42647, [42646]), (42649, [42648]), (42651, [42650]), (42787, [42786]), (42789, [42788]),
     (42791, [42790]), (42793, [42792]), (42795, [42794]), (42797, [42796]), (42799, [42798]),
     (42803, [42802]), (42805, [42804]), (42807, [42806]), (42809, [42808]), (42811, [42810]),
     (42813, [42812]), (42815, [42814]), (42817, [42816]), (42819, [42818]), (42821, [42820]),
     (42823, [42822]), (42825, [42824]), (42827, [42826]), (42829, [42828]), (42831, [42830]),
     (42833, [42832]), (42835, [42834]), (42837, [42836]), (42839, [42838]), (42841, [42840]),
     (42843, [42842]), (42845, [42844]), (42847, [42846]), (42849, [42848]), (42851, [42850]),
     (42853, [42852]), (42855, [42854]), (42857, [42856]), (42859, [42858]), (42861, [42860]),
     (42863, [42862]), (42874, [42873]), (42876, [42875]), (42879, [42878])]"

definition upper_table_18 :: "(nat \<times> nat list) list" where
  "upper_table_18 =
    [(42881, [42880]), (42883, [42882]), (42885, [42884]), (42887, [42886]), (42892, [42891]),
     (42897, [42896]), (42899, [42898]), (42900, [42948]), (42903, [42902]), (42905, [42904]),
     (42907, [42906]), (42909, [42908]), (42911, [42910]), (42913, [42912]), (42915, [42914]),
     (42917, [42916]), (42919, [42918]), (42921, [42920]), (42933, [42932]), (42935, [42934]),
     (42937, [42936]), (42939, [42938]), (42941, [42940]), (42943, [42942]), (42945, [42944]),
     (42947, [42946]), (42952, [42951]), (42954, [42953]), (42961, [42960]), (42967, [42966]),
     (42969, [42968]), (42998, [42997]), (43859, [42931]), (43888, [5024]), (43889, [5025]),
     (43890, [5026]), (43891, [5027]), (43892, [5028]), (43893, [5029]), (43894, [5030]),
     (43895, [5031]), (43896, [5032]), (43897, [5033]), (43898, [5034]), (43899, [5035]),
     (43900, [5036]), (43901, [5037]), (43902, [5038]), (43903, [5039]), (43904, [5040]),
     (43905, [5041]), (43906, [5042]), (43907, [5043]), (43908, [5044]), (43909, [5045]),
     (43910, [5046]), (43911, [5047]), (43912, [5048]), (43913, [5049]), (43914, [5050]),
     (43915, [5051]), (43916, [5052]), (43917, [5053]), (43918, [5054])]"

definition upper_table_19 :: "(nat \<times> nat list) list" where
  "upper_table_19 =
    [(43919, [5055]), (43920, [5056]), (43921, [5057]), (43922, [5058]), (43923, [5059]),
     (43924, [5060]), (43925, [5061]), (43926, [5062]), (43927, [5063]), (43928, [5064]),
     (43929, [5065]), (43930, [5066]), (43931, [5067]), (43932, [5068]), (43933, [5069]),
     (43934, [5070]), (43935, [5071]), (43936, [5072]), (43937, [5073]), (43938, [5074]),
     (43939, [5075]), (43940, [5076]), (43941, [5077]), (43942, [5078]), (43943, [5079]),
     (43944, [5080]), (43945, [5081]), (43946, [5082]), (43947, [5083]), (43948, [5084]),
     (43949, [5085]), (43950, [5086]), (43951, [5087]), (43952, [5088]), (43953, [5089]),
     (43954, [5090]), (43955, [5091]), (43956, [5092]), (43957, [5093]), (43958, [5094]),
     (43959, [5095]), (43960, [5096]), (43961, [5097]), (43962, [5098]), (43963, [5099]),
     (43964, [5100]), (43965, [5101]), (43966, [5102]), (43967, [5103]), (64256, [70, 70]),
     (64257, [70, 73]), (64258, [70, 76]), (64259, [70, 70, 73]), (64260, [70, 70, 76]),
     (64261, [83, 84]), (64262, [83, 84]), (64275, [1348, 1350]), (64276, [1348, 1333]),
     (64277, [1348, 1339]), (64278, [1358, 1350]), (64279, [1348, 1341]), (65345, [65313]),
     (65346, [65314]), (65347, [65315])]"

definition upper_table_20 :: "(nat \<times> nat list) list" where
  "upper_table_20 =
    [(65348, [65316]), (65349, [65317]), (65350, [65318]), (65351, [65319]), (65352, [65320]),
     (65353, [65321]), (65354, [65322]), (65355, [65323]), (65356, [65324]), (65357, [65325]),
     (65358, [65326]), (65359, [65327]), (65360, [65328]), (65361, [65329]), (65362, [65330]),
     (65363, [65331]), (65364, [65332]), (65365, [65333]), (65366, [65334]), (65367, [65335]),
     (65368, [65336]), (65369, [65337]), (65370, [65338]), (66600, [66560]), (66601, [66561]),
     (66602, [66562]), (66603, [66563]), (66604, [66564]), (66605, [66565]), (66606, [66566]),
     (66607, [66567]), (66608, [66568]), (66609, [66569]), (66610, [66570]), (66611, [66571]),
     (66612, [66572]), (66613, [66573]), (66614, [66574]), (66615, [66575]), (66616, [66576]),
     (66617, [66577]), (66618, [66578]), (66619, [66579]), (66620, [66580]), (66621, [66581]),
     (66622, [66582]), (66623, [66583]), (66624, [66584]), (66625, [66585]), (66626, [66586]),
     (66627, [66587]), (66628, [66588]), (66629, [66589]), (66630, [66590]), (66631, [66591]),
     (66632, [66592]), (66633, [66593]), (66634, [66594]), (66635, [66595]), (66636, [66596]),
     (66637, [66597]), (66638, [66598]), (66639, [66599]), (66776, [66736])]"

definition upper_table_21 :: "(nat \<times> nat list) list" where
  "upper_table_21 =
    [(66777, [66737]), (66778, [66738]), (66779, [66739]), (66780, [66740]), (66781, [66741]),
     (66782, [66742]), (66783, [66743]), (66784, [66744]), (66785, [66745]), (66786, [66746]),
     (66787, [66747]), (66788, [66748]), (66789, [66749]), (66790, [66750]), (66791, [66751]),
     (66792, [66752]), (66793, [66753]), (66794, [66754]), (66795, [66755]), (66796, [66756]),
     (66797, [66757]), (66798, [66758]), (66799, [66759]), (66800, [66760]), (66801, [66761]),
     (66802, [66762]), (66803, [66763]), (66804, [66764]), (66805, [66765]), (66806, [66766]),
     (66807, [66767]), (66808, [66768]), (66809, [66769]), (66810, [66770]), (66811, [66771]),
     (66967, [66928]), (66968, [66929]), (66969, [66930]), (66970, [66931]), (66971, [66932]),
     (66972, [66933]), (66973, [66934]), (66974, [66935]), (66975, [66936]), (66976, [66937]),
     (66977, [66938]), (66979, [66940]), (66980, [66941]), (66981, [66942]), (66982, [66943]),
     (66983, [66944]), (66984, [66945]), (66985, [66946]), (66986, [66947]), (66987, [66948]),
     (66988, [66949]), (66989, [66950]), (66990, [66951]), (66991, [66952]), (66992, [66953]),
     (66993, [66954]), (66995, [66956]), (66996, [66957]), (66997, [66958])]"

definition upper_table_22 :: "(nat \<times> nat list) list" where
  "upper_table_22 =
    [(66998, [66959]), (66999, [66960]), (67000, [66961]), (67001, [66962]), (67003, [66964]),
     (67004, [66965]), (68800, [68736]), (68801, [68737]), (68802, [68738]), (68803, [68739]),
     (68804, [68740]), (68805, [68741]), (68806, [68742]), (68807, [68743]), (68808, [68744]),
     (68809, [68745]), (68810, [68746]), (68811, [68747]), (68812, [68748]), (68813, [68749]),
     (68814, [68750]), (68815, [68751]), (68816, [68752]), (68817, [68753]), (68818, [68754]),
     (68819, [68755]), (68820, [68756]), (68821, [68757]), (68822, [68758]), (68823, [68759]),
     (68824, [68760]), (68825, [68761]), (68826, [68762]), (68827, [68763]), (68828, [68764]),
     (68829, [68765]), (68830, [68766]), (68831, [68767]), (68832, [68768]), (68833, [68769]),
     (68834, [68770]), (68835, [68771]), (68836, [68772]), (68837, [68773]), (68838, [68774]),
     (68839, [68775]), (68840, [68776]), (68841, [68777]), (68842, [68778]), (68843, [68779]),
     (68844, [68780]), (68845, [68781]), (68846, [68782]), (68847, [68783]), (68848, [68784]),
     (68849, [68785]), (68850, [68786]), (71872, [71840]), (71873, [71841]), (71874, [71842]),
     (71875, [71843]), (71876, [71844]), (71877, [71845]), (71878, [71846])]"

definition upper_table_23 :: "(nat \<times> nat list) list" where
  "upper_table_23 =
    [(71879, [71847]), (71880, [71848]), (71881, [71849]), (71882, [71850]), (71883, [71851]),
     (71884, [71852]), (71885, [71853]), (71886, [71854]), (71887, [71855]), (71888, [71856]),
     (71889, [71857]), (71890, [71858]), (71891, [71859]), (71892, [71860]), (71893, [71861]),
     (71894, [71862]), (71895, [71863]), (71896, [71864]), (71897, [71865]), (71898, [71866]),
     (71899, [71867]), (71900, [71868]), (71901, [71869]), (71902, [71870]), (71903, [71871]),
     (93792, [93760]), (93793, [93761]), (93794, [93762]), (93795, [93763]), (93796, [93764]),
     (93797, [93765]), (93798, [93766]), (93799, [93767]), (93800, [93768]), (93801, [93769]),
     (93802, [93770]), (93803, [93771]), (93804, [93772]), (93805, [93773]), (93806, [93774]),
     (93807, [93775]), (93808, [93776]), (93809, [93777]), (93810, [93778]), (93811, [93779]),
     (93812, [93780]), (93813, [93781]), (93814, [93782]), (93815, [93783]), (93816, [93784]),
     (93817, [93785]), (93818, [93786]), (93819, [93787]), (93820, [93788]), (93821, [93789]),
     (93822, [93790]), (93823, [93791]), (125218, [125184]), (125219, [125185]),
     (125220, [125186]), (125221, [125187]), (125222, [125188]), (125223, [125189]),
     (125224, [125190])]"

definition upper_table_24 :: "(nat \<times> nat list) list" where
  "upper_table_24 =
    [(125225, [125191]), (125226, [125192]), (125227, [125193]), (125228, [125194]),
     (125229, [125195]), (125230, [125196]), (125231, [125197]), (125232, [125198]),
     (125233, [125199]), (125234, [125200]), (125235, [125201]), (125236, [125202]),
     (125237, [125203]), (125238, [125204]), (125239, [125205]), (125240, [125206]),
     (125241, [125207]), (125242, [125208]), (125243, [125209]), (125244, [125210]),
     (125245, [125211]), (125246, [125212]), (125247, [125213]), (125248, [125214]),
     (125249, [125215]), (125250, [125216]), (125251, [125217])]"

definition upper_table :: "(nat \<times> nat list) list" where
  "upper_table =
     upper_table_1 @ upper_table_2 @ upper_table_3 @ upper_table_4 @ upper_table_5 @
     upper_table_6 @ upper_table_7 @ upper_table_8 @ upper_table_9 @ upper_table_10 @
     upper_table_11 @ upper_table_12 @ upper_table_13 @ upper_table_14 @ upper_table_15 @
     upper_table_16 @ upper_table_17 @ upper_table_18 @ upper_table_19 @ upper_table_20 @
     upper_table_21 @ upper_table_22 @ upper_table_23 @ upper_table_24"

text \<open>
  The uppercase mapping of one character: the letters \<open>a\<close> to \<open>z\<close> become \<open>A\<close> to \<open>Z\<close>,
  the other ASCII characters stay as they are, a character of the table is replaced as
  the table says, and every other character stays as it is.
\<close>

definition upper_full :: "nat \<Rightarrow> nat list" where
  "upper_full c =
     (if c < 128 then (if 97 \<le> c \<and> c \<le> 122 then [c - 32] else [c])
      else case map_of upper_table c of Some u \<Rightarrow> u | None \<Rightarrow> [c])"

definition upper :: "ustr \<Rightarrow> ustr" where
  "upper s = concat (map upper_full s)"

text \<open>The operator \<open>needle in haystack\<close> on strings: \<open>needle\<close> occurs as a contiguous run.\<close>

fun str_contains :: "'a list \<Rightarrow> 'a list \<Rightarrow> bool" where
  "str_contains needle [] = (needle = [])"
| "str_contains needle (c # cs) = (prefix needle (c # cs) \<or> str_contains needle cs)"

text \<open>\<open>sep.join(xs)\<close>\<close>

fun join :: "string \<Rightarrow> string list \<Rightarrow> string" where
  "join sep [] = []"
| "join sep [x] = x"
| "join sep (x # y # ys) = x @ sep @ join sep (y # ys)"

text \<open>\<open>dict(items)\<close>: a later pair for a key already seen replaces its value in place.\<close>

definition dict_of_items :: "dict \<Rightarrow> dict" where
  "dict_of_items items = foldl (\<lambda>d (k, v). AList.update k v d) [] items"

text \<open>\<open>d.get(key, default)\<close>\<close>

definition dict_get :: "dict \<Rightarrow> string \<Rightarrow> string \<Rightarrow> string" where
  "dict_get d k dflt = (case map_of d k of Some v \<Rightarrow> v | None \<Rightarrow> dflt)"

text \<open>\<open>str(n)\<close> for a natural number: its decimal digits.\<close>

definition digit_char :: "nat \<Rightarrow> char" where
  "digit_char d = ''0123456789'' ! d"

fun str_nat :: "nat \<Rightarrow> string" where
  "str_nat n = (if n < 10 then [digit_char n] else str_nat (n div 10) @ [digit_char (n mod 10)])"

declare str_nat.simps [simp del]

section \<open>Exceptions\<close>

text \<open>
  An exception is its class and its message (\<open>str(e)\<close>). The classes are the ones the
  program raises or catches by name: the three of \<open>exceptions.py\<close>, \<open>ValueError\<close> and
  \<open>KeyError\<close> of the configuration, the three classes of the HTTP library that the session
  manager catches, and \<open>OtherException\<close> for an instance of any other subclass of
  \<open>Exception\<close>.
\<close>

datatype exc_class =
    ValueError | KeyError
  | NetworkError | AuthenticationError | LicenseRequestError
  | Timeout | ConnectionError | HTTPError
  | OtherException

datatype exn = Exn (cls: exc_class) (msg: string)

section \<open>Configuration (config.py)\<close>

record config =
  user_id :: string
  user_pass :: string
  customer_id :: string
  email :: string
  homepage_url :: string
  login_url :: string
  license_url :: string
  request_timeout :: int
  max_retries :: int

text \<open>The dataclass constructor with the default values of the last five fields.\<close>

definition Config :: "string \<Rightarrow> string \<Rightarrow> string \<Rightarrow> string \<Rightarrow> config" where
  "Config uid upass cid mail =
     \<lparr> user_id = uid, user_pass = upass, customer_id = cid, email = mail,
       homepage_url = ''https://support.tobesoft.co.kr/Support/?menu=home'',
       login_url =
         ''https://support.tobesoft.co.kr/Next_JSP/CS-Homepage/Next_JSP/Login/Login_new.jsp'',
       license_url = ''https://next.tobesoft.com/FrontControllerServlet.do'',
       request_timeout = 30,
       max_retries = 3 \<rparr>"

text \<open>The process environment: a variable is unset (\<open>None\<close>) or set to a string.\<close>

type_synonym environ = "string \<rightharpoonup> string"

definition required_vars :: "string list" where
  "required_vars = [''NEXACRO_USER_ID'', ''NEXACRO_USER_PASS'', ''NEXACRO_EMAIL'']"

text \<open>\<open>not os.getenv(var)\<close>: the variable is unset, or set to the empty string.\<close>

definition not_getenv :: "environ \<Rightarrow> string \<Rightarrow> bool" where
  "not_getenv env var = (case env var of None \<Rightarrow> True | Some v \<Rightarrow> v = [])"

text \<open>\<open>os.environ[var]\<close> raises \<open>KeyError\<close> on an unset variable.\<close>

definition environ_item :: "environ \<Rightarrow> string \<Rightarrow> exn + string" where
  "environ_item env var =
     (case env var of
        None \<Rightarrow> Inl (Exn KeyError ([CHR 0x27] @ var @ [CHR 0x27]))
      | Some v \<Rightarrow> Inr v)"

definition missing_vars :: "environ \<Rightarrow> string list" where
  "missing_vars env = filter (not_getenv env) required_vars"

definition from_env :: "environ \<Rightarrow> exn + config" where
  "from_env env =
     (let missing = missing_vars env in
      if missing \<noteq> [] then
        Inl (Exn ValueError (''Missing required environment variables: '' @ join '', '' missing))
      else
        case environ_item env ''NEXACRO_USER_ID'' of
          Inl e \<Rightarrow> Inl e
        | Inr uid \<Rightarrow>
            (case environ_item env ''NEXACRO_USER_PASS'' of
               Inl e \<Rightarrow> Inl e
             | Inr upass \<Rightarrow>
                 (case environ_item env ''NEXACRO_EMAIL'' of
                    Inl e \<Rightarrow> Inl e
                  | Inr mail \<Rightarrow> Inr (Config uid upass uid mail))))"

definition validate :: "config \<Rightarrow> exn + unit" where
  "validate cfg =
     (if email cfg = [] \<or> \<not> str_contains ''@'' (email cfg) then
        Inl (Exn ValueError (''Invalid email format: '' @ email cfg))
      else Inr ())"

section \<open>The HTTP session and the trace of a run\<close>

text \<open>
  The HTTP library is outside the program. A call of \<open>session.get\<close> or \<open>session.post\<close>
  either raises an exception or returns a response; \<open>status_error\<close> of a response is the
  message of the \<open>HTTPError\<close> that \<open>raise_for_status\<close> raises for it, \<open>None\<close> when the
  status is not an error status.

  Everything the program does to the outside is recorded, in order, in a trace of events:
  the requests it sends, the sessions it opens and closes, and its logging calls. What the
  remote side answers is a parameter of the model: it may depend on the request and on
  all the requests sent before it.
\<close>

record request =
  http_method :: string
  url :: string
  params :: dict
  data :: string
  headers :: dict
  timeout :: int

record response =
  status_error :: "string option"
  resp_text :: ustr
  cookies :: dict

datatype http_result = Returns response | Raises exn

datatype level = INFO | ERROR

datatype event =
    Logged string level string
  | Sent request
  | SessionCreated
  | SessionClosed

type_synonym trace = "event list"

text \<open>The requests of a trace, in the order in which they were sent.\<close>

fun sent :: "trace \<Rightarrow> request list" where
  "sent [] = []"
| "sent (Sent req # es) = req # sent es"
| "sent (_ # es) = sent es"

type_synonym server = "request list \<Rightarrow> request \<Rightarrow> http_result"

definition send :: "server \<Rightarrow> request \<Rightarrow> trace \<Rightarrow> http_result \<times> trace" where
  "send srv req tr = (srv (sent tr) req, tr @ [Sent req])"

definition raise_for_status :: "response \<Rightarrow> exn + unit" where
  "raise_for_status r =
     (case status_error r of Some m \<Rightarrow> Inl (Exn HTTPError m) | None \<Rightarrow> Inr ())"

section \<open>Session manager (session_manager.py)\<close>

text \<open>The header that \<open>__init__\<close> sets on the session; every request of the session carries it.\<close>

definition session_headers :: dict where
  "session_headers =
     [(''User-Agent'',
       ''Mozilla/5.0 (Macintosh; Intel Mac OS X 10_15_7) AppleWebKit/537.36'')]"

definition tabs :: "nat \<Rightarrow> string" where
  "tabs n = replicate n (CHR 0x09)"

definition build_login_xml :: "config \<Rightarrow> string" where
  \<open>build_login_xml cfg =
     join ''\<newline>''
       [ ''<?xml version="1.0" encoding="UTF-8"?>'',
         ''<Root xmlns="http://www.nexacroplatform.com/platform/dataset">'',
         tabs 1 @ ''<Parameters>'',
         tabs 2 @ ''<Parameter id="RTYPE">XML</Parameter>'',
         tabs 2 @ ''<Parameter id="DB">CS</Parameter>'',
         tabs 2 @ ''<Parameter id="DBUSER">POTAL_USER</Parameter>'',
         tabs 1 @ ''</Parameters>'',
         tabs 1 @ ''<Dataset id="input">'',
         tabs 2 @ ''<ColumnInfo>'',
         tabs 3 @ ''<Column id="userId" type="STRING" size="256" />'',
         tabs 3 @ ''<Column id="userPass" type="STRING" size="256" />'',
         tabs 2 @ ''</ColumnInfo>'',
         tabs 2 @ ''<Rows>'',
         tabs 3 @ ''<Row>'',
         tabs 4 @ ''<Col id="userId">'' @ user_id cfg @ ''</Col>'',
         tabs 4 @ ''<Col id="userPass">'' @ user_pass cfg @ ''</Col>'',
         tabs 3 @ ''</Row>'',
         tabs 2 @ ''</Rows>'',
         tabs 1 @ ''</Dataset>'',
         ''</Root>'' ]\<close>

definition build_license_params :: "config \<Rightarrow> dict" where
  "build_license_params cfg =
     [ (''service'', ''xupservice''),
       (''domain'', ''NEXTp''),
       (''model'', ''CE_LicenseEMailSend_R01''),
       (''format'', ''xml''),
       (''version'', ''xplatform''),
       (''p_ConType'', ''TECH2''),
       (''p_Product'', ''NP14''),
       (''p_Language'', ''KOR''),
       (''p_CustomID'', customer_id cfg),
       (''p_Email'', email cfg),
       (''p_Merge'', ''N''),
       (''zip'', ''false'') ]"

definition homepage_request :: "config \<Rightarrow> request" where
  "homepage_request cfg =
     \<lparr> http_method = ''GET'', url = homepage_url cfg, params = [], data = [],
       headers = session_headers, timeout = request_timeout cfg \<rparr>"

definition login_request :: "config \<Rightarrow> request" where
  "login_request cfg =
     \<lparr> http_method = ''POST'', url = login_url cfg, params = [], data = build_login_xml cfg,
       headers = session_headers @ [(''Content-Type'', ''text/xml; charset=UTF-8'')],
       timeout = request_timeout cfg \<rparr>"

definition license_request :: "config \<Rightarrow> request" where
  "license_request cfg =
     \<lparr> http_method = ''GET'', url = license_url cfg, params = build_license_params cfg, data = [],
       headers = session_headers, timeout = request_timeout cfg \<rparr>"

text \<open>
  Each operation is the body of its \<open>try\<close> block followed by the \<open>except\<close> clauses in the
  order of the source; an exception of a class that no clause names leaves the operation
  as it is.
\<close>

definition establish_session :: "config \<Rightarrow> server \<Rightarrow> trace \<Rightarrow> (exn + dict) \<times> trace" where
  "establish_session cfg srv tr =
     (let (res, tr') = send srv (homepage_request cfg) tr;
          attempt =
            (case res of
               Raises e \<Rightarrow> Inl e
             | Returns r \<Rightarrow>
                 (case raise_for_status r of
                    Inl e \<Rightarrow> Inl e
                  | Inr _ \<Rightarrow> Inr (dict_of_items (cookies r))))
      in (case attempt of
            Inr v \<Rightarrow> Inr v
          | Inl e \<Rightarrow>
              if cls e = Timeout then
                Inl (Exn NetworkError (''Request timeout: '' @ homepage_url cfg))
              else if cls e = ConnectionError then
                Inl (Exn NetworkError (''Connection failed: '' @ homepage_url cfg))
              else if cls e = HTTPError then
                Inl (Exn NetworkError (''HTTP error: '' @ msg e))
              else Inl e,
          tr'))"

definition login :: "config \<Rightarrow> server \<Rightarrow> trace \<Rightarrow> (exn + bool) \<times> trace" where
  "login cfg srv tr =
     (let (res, tr') = send srv (login_request cfg) tr;
          attempt =
            (case res of
               Raises e \<Rightarrow> Inl e
             | Returns r \<Rightarrow>
                 (case raise_for_status r of
                    Inl e \<Rightarrow> Inl e
                  | Inr _ \<Rightarrow>
                      if str_contains (codes ''SUCCESS'') (upper (resp_text r)) then Inr True
                      else Inl (Exn AuthenticationError
                                  ''Login failed: Invalid credentials or response'')))
      in (case attempt of
            Inr v \<Rightarrow> Inr v
          | Inl e \<Rightarrow>
              if cls e = Timeout then
                Inl (Exn NetworkError ''Request timeout during login'')
              else if cls e = ConnectionError then
                Inl (Exn NetworkError ''Connection failed during login'')
              else if cls e = HTTPError then
                Inl (Exn NetworkError (''HTTP error during login: '' @ msg e))
              else Inl e,
          tr'))"

definition request_license_email :: "config \<Rightarrow> server \<Rightarrow> trace \<Rightarrow> (exn + bool) \<times> trace" where
  "request_license_email cfg srv tr =
     (let (res, tr') = send srv (license_request cfg) tr;
          attempt =
            (case res of
               Raises e \<Rightarrow> Inl e
             | Returns r \<Rightarrow>
                 (case raise_for_status r of
                    Inl e \<Rightarrow> Inl e
                  | Inr _ \<Rightarrow>
                      if str_contains (codes ''FAIL'') (upper (resp_text r)) then
                        Inl (Exn LicenseRequestError ''License request failed'')
                      else if str_contains (codes ''SUCCESS'') (upper (resp_text r)) then Inr True
                      else Inl (Exn LicenseRequestError
                                  ''License request failed: Unknown response'')))
      in (case attempt of
            Inr v \<Rightarrow> Inr v
          | Inl e \<Rightarrow>
              if cls e = Timeout then
                Inl (Exn NetworkError ''Request timeout during license request'')
              else if cls e = ConnectionError then
                Inl (Exn NetworkError ''Connection failed during license request'')
              else if cls e = HTTPError then
                Inl (Exn NetworkError (''HTTP error during license request: '' @ msg e))
              else Inl e,
          tr'))"

section \<open>Orchestrator (nexacro_license_requester.py)\<close>

definition logger_name :: string where
  "logger_name = ''NexacroLicenseRequester''"

definition info :: "string \<Rightarrow> trace \<Rightarrow> trace" where
  "info m tr = tr @ [Logged logger_name INFO m]"

definition error :: "string \<Rightarrow> trace \<Rightarrow> trace" where
  "error m tr = tr @ [Logged logger_name ERROR m]"

text \<open>
  \<open>_setup_logger\<close> creates the directory \<open>logs\<close> and opens the log file in it. Both are
  calls into the file system, which is outside the program: the parameter is the exception
  that they raise, if any.
\<close>

definition setup_logger :: "exn option \<Rightarrow> exn + unit" where
  "setup_logger fault = (case fault of Some e \<Rightarrow> Inl e | None \<Rightarrow> Inr ())"

definition log_request_summary :: "bool \<Rightarrow> dict \<Rightarrow> trace \<Rightarrow> trace" where
  "log_request_summary success details tr =
     (if success then
        info (''=== LICENSE REQUEST SUCCESS ===\<newline>'' @
              ''User: '' @ dict_get details ''user_id'' ''N/A'' @ ''\<newline>'' @
              ''Customer: '' @ dict_get details ''customer_id'' ''N/A'' @ ''\<newline>'' @
              ''Email: '' @ dict_get details ''email'' ''N/A'') tr
      else
        error (''=== LICENSE REQUEST FAILED ===\<newline>'' @
               ''Error: '' @ dict_get details ''error'' ''Unknown'' @ ''\<newline>'' @
               ''Message: '' @ dict_get details ''message'' ''No details'') tr)"

text \<open>The body of the \<open>with\<close> block of \<open>request_license\<close>: the three steps in order.\<close>

definition workflow_steps :: "config \<Rightarrow> server \<Rightarrow> trace \<Rightarrow> (exn + unit) \<times> trace" where
  "workflow_steps cfg srv tr =
     (case establish_session cfg srv (info ''Step 1/3: Establishing session'' tr) of
        (Inl e, tr1) \<Rightarrow> (Inl e, tr1)
      | (Inr cks, tr1) \<Rightarrow>
          (case login cfg srv
                  (info ''Step 2/3: Authenticating''
                    (info (''Session established with '' @ str_nat (length cks) @ '' cookies'')
                       tr1)) of
             (Inl e, tr2) \<Rightarrow> (Inl e, tr2)
           | (Inr _, tr2) \<Rightarrow>
               (case request_license_email cfg srv
                       (info ''Step 3/3: Requesting license''
                         (info (''Authentication successful for user: '' @ user_id cfg) tr2)) of
                  (Inl e, tr3) \<Rightarrow> (Inl e, tr3)
                | (Inr _, tr3) \<Rightarrow>
                    (Inr (),
                     info (''License request submitted successfully for '' @ email cfg) tr3))))"

text \<open>
  \<open>request_license\<close>: the session manager is created, the \<open>with\<close> block runs, the session
  is closed on leaving the block on every path, and the \<open>except\<close> clauses turn an
  exception into the result \<open>False\<close>.
\<close>

definition request_license :: "config \<Rightarrow> server \<Rightarrow> trace \<Rightarrow> bool \<times> trace" where
  "request_license cfg srv tr =
     (case workflow_steps cfg srv
             (info ''Starting Nexacro license request workflow'' tr @ [SessionCreated]) of
        (Inr _, tr1) \<Rightarrow>
          (True,
           log_request_summary True
             [(''user_id'', user_id cfg), (''customer_id'', customer_id cfg),
              (''email'', email cfg)]
             (tr1 @ [SessionClosed]))
      | (Inl e, tr1) \<Rightarrow>
          if cls e = NetworkError then
            (False,
             log_request_summary False [(''error'', ''Network error''), (''message'', msg e)]
               (error (''Network error during workflow: '' @ msg e) (tr1 @ [SessionClosed])))
          else if cls e = AuthenticationError then
            (False,
             log_request_summary False
               [(''error'', ''Authentication failed''), (''message'', msg e)]
               (error (''Authentication failed: '' @ msg e) (tr1 @ [SessionClosed])))
          else if cls e = LicenseRequestError then
            (False,
             log_request_summary False
               [(''error'', ''License request failed''), (''message'', msg e)]
               (error (''License request failed: '' @ msg e) (tr1 @ [SessionClosed])))
          else
            (False,
             log_request_summary False [(''error'', ''Unexpected error''), (''message'', msg e)]
               (error (''Unexpected error during workflow: '' @ msg e)
                  (tr1 @ [SessionClosed]))))"

text \<open>
  \<open>main\<close>: the result is the exit code. \<open>logging.error\<close> of \<open>main\<close> goes to the root
  logger.
\<close>

definition main_except :: "exn \<Rightarrow> trace \<Rightarrow> int \<times> trace" where
  "main_except e tr =
     (if cls e = ValueError then
        (1, tr @ [Logged ''root'' ERROR (''Configuration error: '' @ msg e)])
      else (1, tr @ [Logged ''root'' ERROR (''Fatal error: '' @ msg e)]))"

definition main :: "environ \<Rightarrow> exn option \<Rightarrow> server \<Rightarrow> trace \<Rightarrow> int \<times> trace" where
  "main env fault srv tr =
     (case from_env env of
        Inl e \<Rightarrow> main_except e tr
      | Inr cfg \<Rightarrow>
          (case validate cfg of
             Inl e \<Rightarrow> main_except e tr
           | Inr _ \<Rightarrow>
               (case setup_logger fault of
                  Inl e \<Rightarrow> main_except e tr
                | Inr _ \<Rightarrow>
                    (case request_license cfg srv tr of
                       (success, tr') \<Rightarrow> (if success then 0 else 1, tr')))))"

section \<open>Example inputs\<close>

definition env_empty_user_id :: environ where
  "env_empty_user_id =
     [''NEXACRO_USER_ID'' \<mapsto> [], ''NEXACRO_USER_PASS'' \<mapsto> ''secret'',
      ''NEXACRO_EMAIL'' \<mapsto> ''dev@example.com'']"

definition env_two_missing :: environ where
  "env_two_missing = [''NEXACRO_USER_ID'' \<mapsto> ''dev'', ''NEXACRO_EMAIL'' \<mapsto> []]"

definition env_complete :: environ where
  "env_complete =
     [''NEXACRO_USER_ID'' \<mapsto> ''dev'', ''NEXACRO_USER_PASS'' \<mapsto> ''secret'',
      ''NEXACRO_EMAIL'' \<mapsto> ''dev@example.com'']"

definition cfg_example :: config where
  "cfg_example = Config ''dev'' ''secret'' ''dev'' ''dev@example.com''"

definition cfg_markup :: config where
  "cfg_markup = Config ''dev'' ''a<b&c'' ''dev'' ''dev@example.com''"

text \<open>A response without error status and without cookies, with the given text.\<close>

definition ok_text :: "ustr \<Rightarrow> response" where
  "ok_text body = \<lparr> status_error = None, resp_text = body, cookies = [] \<rparr>"

definition ok_response :: "string \<Rightarrow> response" where
  "ok_response body = ok_text (codes body)"

definition replying :: "string \<Rightarrow> server" where
  "replying body = (\<lambda>history req. Returns (ok_response body))"

text \<open>
  A remote side that answers the requests of a run in order from a list of results, whatever
  the request, and refuses the connection once the list is used up.
\<close>

definition scripted :: "http_result list \<Rightarrow> server" where
  "scripted rs =
     (\<lambda>history req.
        if length history < length rs then rs ! length history
        else Raises (Exn ConnectionError []))"

definition srv_login_rejected :: server where
  "srv_login_rejected =
     scripted [Returns (ok_response ''<html></html>''), Returns (ok_response ''FAIL''),
               Returns (ok_response ''SUCCESS'')]"

definition srv_license_failed :: server where
  "srv_license_failed =
     scripted [Returns (ok_response ''<html></html>''), Returns (ok_response ''SUCCESS''),
               Returns (ok_response ''FAIL'')]"

definition srv_timeout :: server where
  "srv_timeout = scripted [Raises (Exn Timeout ''timed out'')]"

definition srv_redirects :: server where
  "srv_redirects = scripted [Raises (Exn OtherException ''Exceeded 30 redirects.'')]"

text \<open>
  Two texts outside ASCII: \<open>succe\<close> followed by \<open>U+00DF\<close> (sharp s), and \<open>SUCCESS fa\<close>,
  \<open>U+0131\<close> (dotless i), \<open>l\<close>.
\<close>

definition body_sharp_s :: ustr where
  "body_sharp_s = codes ''succe'' @ [223]"

definition body_dotless_i :: ustr where
  "body_dotless_i = codes ''SUCCESS fa'' @ [305] @ codes ''l''"

definition env_bad_email :: environ where
  "env_bad_email =
     [''NEXACRO_USER_ID'' \<mapsto> ''dev'', ''NEXACRO_USER_PASS'' \<mapsto> ''secret'',
      ''NEXACRO_EMAIL'' \<mapsto> ''dev.example.com'']"

section \<open>Auxiliary facts\<close>

lemma str_contains_sublist: "str_contains p s \<longleftrightarrow> sublist p s"
  by (induction s) (simp_all add: sublist_Cons_right)

lemma sublist_concat_map:
  assumes "sublist p s"
  shows "sublist (concat (map f p)) (concat (map f s))"
proof -
  from assms obtain a b where "s = a @ p @ b"
    by (auto simp: sublist_def)
  then have "concat (map f s) = concat (map f a) @ concat (map f p) @ concat (map f b)"
    by simp
  then show ?thesis
    unfolding sublist_def by blast
qed

lemma str_contains_upper_mono: "str_contains p s \<Longrightarrow> str_contains (upper p) (upper s)"
  unfolding str_contains_sublist upper_def by (rule sublist_concat_map)

lemma upper_full_ascii:
  "c < 128 \<Longrightarrow> upper_full c = [if 97 \<le> c \<and> c \<le> 122 then c - 32 else c]"
  by (simp add: upper_full_def)

lemma upper_ascii:
  "\<forall>c \<in> set s. c < 128 \<Longrightarrow>
   upper s = map (\<lambda>c. if 97 \<le> c \<and> c \<le> 122 then c - 32 else c) s"
  by (induction s) (simp_all add: upper_def upper_full_ascii)

lemma map_of_upper_table_1:
  "map_of upper_table_1 223 = Some [83, 83]" "map_of upper_table_1 305 = Some [73]"
  by (simp_all add: upper_table_1_def map_of_Cons_code del: map_of.simps)

lemma upper_full_examples: "upper_full 223 = [83, 83]" "upper_full 305 = [73]"
  by (simp_all add: upper_full_def upper_table_def map_add_def map_of_upper_table_1
      del: map_of.simps)

lemma join_mem_sublist: "x \<in> set xs \<Longrightarrow> sublist x (join sep xs)"
proof (induction sep xs rule: join.induct)
  case (1 sep)
  then show ?case by simp
next
  case (2 sep y)
  then show ?case by simp
next
  case (3 sep y z zs)
  show ?case
  proof (cases "x = y")
    case True
    then show ?thesis by simp
  next
    case False
    with 3 have "sublist x (join sep (z # zs))" by simp
    then have "sublist x ((y @ sep) @ join sep (z # zs))"
      by (meson sublist_append)
    then show ?thesis by simp
  qed
qed

lemma missing_vars_alt:
  "missing_vars env = [v \<leftarrow> required_vars. env v = None \<or> env v = Some []]"
  unfolding missing_vars_def
  by (rule filter_cong) (auto simp: not_getenv_def split: option.splits)

lemma from_env_ok:
  assumes "missing_vars env = []"
  shows "\<exists>u p m. env ''NEXACRO_USER_ID'' = Some u \<and> env ''NEXACRO_USER_PASS'' = Some p \<and>
     env ''NEXACRO_EMAIL'' = Some m \<and> u \<noteq> [] \<and> p \<noteq> [] \<and> m \<noteq> [] \<and>
     from_env env = Inr (Config u p u m)"
proof -
  from assms have "\<forall>v \<in> set required_vars. \<not> not_getenv env v"
    by (simp add: missing_vars_def filter_empty_conv)
  then have "\<not> not_getenv env ''NEXACRO_USER_ID''" "\<not> not_getenv env ''NEXACRO_USER_PASS''"
    "\<not> not_getenv env ''NEXACRO_EMAIL''"
    by (simp_all add: required_vars_def)
  then obtain u p m where "env ''NEXACRO_USER_ID'' = Some u" "u \<noteq> []"
    "env ''NEXACRO_USER_PASS'' = Some p" "p \<noteq> []" "env ''NEXACRO_EMAIL'' = Some m" "m \<noteq> []"
    by (auto simp: not_getenv_def split: option.splits)
  with assms show ?thesis
    by (simp add: from_env_def environ_item_def)
qed

lemma from_env_fail:
  assumes "missing_vars env \<noteq> []"
  shows "from_env env =
    Inl (Exn ValueError (''Missing required environment variables: '' @ join '', '' (missing_vars env)))"
  using assms by (simp add: from_env_def Let_def)

lemma str_contains_append_left: "str_contains p s \<Longrightarrow> str_contains p (q @ s)"
  unfolding str_contains_sublist by (metis append_Nil2 sublist_append)

lemma missing_vars_update_empty:
  "missing_vars (env(v \<mapsto> [])) = missing_vars (env(v := None))"
  unfolding missing_vars_def
  by (rule filter_cong) (auto simp: not_getenv_def)

lemma missing_vars_mem:
  "v \<in> set required_vars \<Longrightarrow> env v = None \<or> env v = Some [] \<Longrightarrow> v \<in> set (missing_vars env)"
  by (auto simp: missing_vars_def not_getenv_def)

lemma str_contains_upper_ascii_iff:
  assumes "\<forall>c \<in> set s. c < 128"
  shows "str_contains p (upper s) \<longleftrightarrow> (\<exists>w. str_contains w s \<and> upper w = p)"
proof
  let ?up = "\<lambda>c::nat. if 97 \<le> c \<and> c \<le> 122 then c - 32 else c"
  assume "str_contains p (upper s)"
  then have "sublist p (map ?up s)"
    using assms by (simp add: str_contains_sublist upper_ascii)
  then obtain w where w: "sublist w s" and p: "p = map ?up w"
    using sublist_map_rightE by blast
  from w have "set w \<subseteq> set s"
    by (rule set_mono_sublist)
  with assms have "\<forall>c \<in> set w. c < 128"
    by blast
  then have "upper w = p"
    using p by (simp add: upper_ascii)
  with w show "\<exists>w. str_contains w s \<and> upper w = p"
    by (auto simp: str_contains_sublist)
next
  assume "\<exists>w. str_contains w s \<and> upper w = p"
  then show "str_contains p (upper s)"
    using str_contains_upper_mono by blast
qed

lemma upper_FAIL:
  "upper (codes ''fail'') = codes ''FAIL''" "upper (codes ''FAIL'') = codes ''FAIL''"
  by (simp_all add: upper_def upper_full_def codes_def)

lemma upper_SUCCESS:
  "upper (codes ''success'') = codes ''SUCCESS''"
  "upper (codes ''SUCCESS'') = codes ''SUCCESS''"
  by (simp_all add: upper_def upper_full_def codes_def)

lemma request_license_email_returns:
  assumes "srv (sent tr) (license_request cfg) = Returns r" and "status_error r = None"
  shows "fst (request_license_email cfg srv tr) =
     (if str_contains (codes ''FAIL'') (upper (resp_text r)) then
        Inl (Exn LicenseRequestError ''License request failed'')
      else if str_contains (codes ''SUCCESS'') (upper (resp_text r)) then Inr True
      else Inl (Exn LicenseRequestError ''License request failed: Unknown response''))"
  using assms by (simp add: request_license_email_def send_def raise_for_status_def)

lemma login_returns:
  assumes "srv (sent tr) (login_request cfg) = Returns r" and "status_error r = None"
  shows "fst (login cfg srv tr) =
     (if str_contains (codes ''SUCCESS'') (upper (resp_text r)) then Inr True
      else Inl (Exn AuthenticationError ''Login failed: Invalid credentials or response''))"
  using assms by (simp add: login_def send_def raise_for_status_def)

lemma replying_returns: "replying body history req = Returns (ok_response body)"
  by (simp add: replying_def)

lemma ok_text_sel [simp]:
  "status_error (ok_text body) = None" "resp_text (ok_text body) = body"
  by (simp_all add: ok_text_def)

lemma ok_response_sel [simp]:
  "status_error (ok_response body) = None" "resp_text (ok_response body) = codes body"
  by (simp_all add: ok_response_def)

lemma scripted_first: "scripted (r # rs) [] req = r"
  by (simp add: scripted_def)

lemma request_license_email_replying:
  "fst (request_license_email cfg (replying body) tr) =
     (if str_contains (codes ''FAIL'') (upper (codes body)) then
        Inl (Exn LicenseRequestError ''License request failed'')
      else if str_contains (codes ''SUCCESS'') (upper (codes body)) then Inr True
      else Inl (Exn LicenseRequestError ''License request failed: Unknown response''))"
  using request_license_email_returns [of "replying body" tr cfg "ok_response body"]
  by (simp add: replying_returns)

lemma login_replying:
  "fst (login cfg (replying body) tr) =
     (if str_contains (codes ''SUCCESS'') (upper (codes body)) then Inr True
      else Inl (Exn AuthenticationError ''Login failed: Invalid credentials or response''))"
  using login_returns [of "replying body" tr cfg "ok_response body"]
  by (simp add: replying_returns)

lemma from_env_cong:
  assumes "\<forall>v \<in> set required_vars. env' v = env v"
  shows "from_env env' = from_env env"
proof -
  have m: "missing_vars env' = missing_vars env"
    unfolding missing_vars_def using assms
    by (intro filter_cong) (simp_all add: not_getenv_def)
  have e: "environ_item env' ''NEXACRO_USER_ID'' = environ_item env ''NEXACRO_USER_ID''"
    "environ_item env' ''NEXACRO_USER_PASS'' = environ_item env ''NEXACRO_USER_PASS''"
    "environ_item env' ''NEXACRO_EMAIL'' = environ_item env ''NEXACRO_EMAIL''"
    using assms by (simp_all add: environ_item_def required_vars_def)
  show ?thesis
    unfolding from_env_def m e ..
qed

lemma from_env_Inr:
  assumes "from_env env = Inr cfg"
  shows "\<exists>u p m. env ''NEXACRO_USER_ID'' = Some u \<and> cfg = Config u p u m"
proof -
  have "missing_vars env = []"
    using assms from_env_fail [of env] by (cases "missing_vars env = []") simp_all
  from from_env_ok [OF this] assms show ?thesis
    by auto
qed

lemma snd_request_license_email:
  "snd (request_license_email cfg srv tr) = tr @ [Sent (license_request cfg)]"
  by (simp add: request_license_email_def send_def)

lemma sent_append [simp]: "sent (xs @ ys) = sent xs @ sent ys"
  by (induction xs rule: sent.induct) simp_all

subsection \<open>The workflow\<close>

lemma sent_info [simp]: "sent (info m tr) = sent tr"
  by (simp add: info_def)

lemma sent_error [simp]: "sent (error m tr) = sent tr"
  by (simp add: error_def)

lemma sent_log_request_summary [simp]: "sent (log_request_summary ok d tr) = sent tr"
  by (simp add: log_request_summary_def)

lemma establish_session_eq:
  "sent tr' = sent tr \<Longrightarrow>
   establish_session cfg srv tr' =
     (fst (establish_session cfg srv tr), tr' @ [Sent (homepage_request cfg)])"
  by (simp add: establish_session_def send_def)

lemma login_eq:
  "sent tr' = sent tr \<Longrightarrow>
   login cfg srv tr' = (fst (login cfg srv tr), tr' @ [Sent (login_request cfg)])"
  by (simp add: login_def send_def)

lemma request_license_email_eq:
  "sent tr' = sent tr \<Longrightarrow>
   request_license_email cfg srv tr' =
     (fst (request_license_email cfg srv tr), tr' @ [Sent (license_request cfg)])"
  by (simp add: request_license_email_def send_def)

text \<open>
  The result of \<open>workflow_steps\<close> and the requests it sends, from the results of the three
  steps. A step's result depends on the trace only through the requests sent so far, so
  each step is taken at the trace that holds just the requests before it.
\<close>

lemma workflow_steps_result:
  assumes "sent tr' = sent tr"
  shows "fst (workflow_steps cfg srv tr') =
      (case fst (establish_session cfg srv tr) of
         Inl e \<Rightarrow> Inl e
       | Inr _ \<Rightarrow>
           (case fst (login cfg srv (tr @ [Sent (homepage_request cfg)])) of
              Inl e \<Rightarrow> Inl e
            | Inr _ \<Rightarrow>
                (case fst (request_license_email cfg srv
                        (tr @ [Sent (homepage_request cfg), Sent (login_request cfg)])) of
                   Inl e \<Rightarrow> Inl e
                 | Inr _ \<Rightarrow> Inr ())))"
    and "sent (snd (workflow_steps cfg srv tr')) =
      sent tr @
      (case fst (establish_session cfg srv tr) of
         Inl _ \<Rightarrow> [homepage_request cfg]
       | Inr _ \<Rightarrow>
           (case fst (login cfg srv (tr @ [Sent (homepage_request cfg)])) of
              Inl _ \<Rightarrow> [homepage_request cfg, login_request cfg]
            | Inr _ \<Rightarrow> [homepage_request cfg, login_request cfg, license_request cfg]))"
proof -
  let ?t1 = "info ''Step 1/3: Establishing session'' tr'"
  let ?e = "fst (establish_session cfg srv tr)"
  let ?l = "fst (login cfg srv (tr @ [Sent (homepage_request cfg)]))"
  let ?r = "fst (request_license_email cfg srv
              (tr @ [Sent (homepage_request cfg), Sent (login_request cfg)]))"
  have 1: "establish_session cfg srv ?t1 = (?e, ?t1 @ [Sent (homepage_request cfg)])"
    using assms by (intro establish_session_eq) simp
  have 2: "login cfg srv t2 = (?l, t2 @ [Sent (login_request cfg)])"
    if "sent t2 = sent tr @ [homepage_request cfg]" for t2
    using that by (intro login_eq) simp
  have 3: "request_license_email cfg srv t3 = (?r, t3 @ [Sent (license_request cfg)])"
    if "sent t3 = sent tr @ [homepage_request cfg, login_request cfg]" for t3
    using that by (intro request_license_email_eq) simp
  have both: "fst (workflow_steps cfg srv tr') =
      (case ?e of Inl e \<Rightarrow> Inl e
       | Inr _ \<Rightarrow> (case ?l of Inl e \<Rightarrow> Inl e
           | Inr _ \<Rightarrow> (case ?r of Inl e \<Rightarrow> Inl e | Inr _ \<Rightarrow> Inr ()))) \<and>
     sent (snd (workflow_steps cfg srv tr')) =
      sent tr @
      (case ?e of Inl _ \<Rightarrow> [homepage_request cfg]
       | Inr _ \<Rightarrow> (case ?l of Inl _ \<Rightarrow> [homepage_request cfg, login_request cfg]
           | Inr _ \<Rightarrow> [homepage_request cfg, login_request cfg, license_request cfg]))"
  proof (cases ?e)
    case (Inl e)
    then have "establish_session cfg srv ?t1 = (Inl e, ?t1 @ [Sent (homepage_request cfg)])"
      using 1 by simp
    then have "workflow_steps cfg srv tr' = (Inl e, ?t1 @ [Sent (homepage_request cfg)])"
      unfolding workflow_steps_def by (simp only: prod.case sum.case)
    then show ?thesis
      using Inl assms by simp
  next
    case e: (Inr cks)
    let ?t2 = "info ''Step 2/3: Authenticating''
       (info (''Session established with '' @ str_nat (length cks) @ '' cookies'')
          (?t1 @ [Sent (homepage_request cfg)]))"
    have e1: "establish_session cfg srv ?t1 = (Inr cks, ?t1 @ [Sent (homepage_request cfg)])"
      using 1 e by simp
    have l2: "login cfg srv ?t2 = (?l, ?t2 @ [Sent (login_request cfg)])"
      using assms by (intro 2) simp
    show ?thesis
    proof (cases ?l)
      case (Inl e')
      then have "login cfg srv ?t2 = (Inl e', ?t2 @ [Sent (login_request cfg)])"
        using l2 by simp
      then have "workflow_steps cfg srv tr' = (Inl e', ?t2 @ [Sent (login_request cfg)])"
        unfolding workflow_steps_def e1 by (simp only: prod.case sum.case)
      then show ?thesis
        using e Inl assms by simp
    next
      case l: (Inr b)
      let ?t3 = "info ''Step 3/3: Requesting license''
         (info (''Authentication successful for user: '' @ user_id cfg)
            (?t2 @ [Sent (login_request cfg)]))"
      have l3: "login cfg srv ?t2 = (Inr b, ?t2 @ [Sent (login_request cfg)])"
        using l2 l by simp
      have r3: "request_license_email cfg srv ?t3 = (?r, ?t3 @ [Sent (license_request cfg)])"
        using assms by (intro 3) simp
      show ?thesis
      proof (cases ?r)
        case (Inl e')
        then have r4: "request_license_email cfg srv ?t3 =
            (Inl e', ?t3 @ [Sent (license_request cfg)])"
          using r3 by simp
        have "workflow_steps cfg srv tr' = (Inl e', ?t3 @ [Sent (license_request cfg)])"
          unfolding workflow_steps_def by (simp only: e1 l3 r4 prod.case sum.case)
        then show ?thesis
          using e l Inl assms by simp
      next
        case (Inr b')
        then have r4: "request_license_email cfg srv ?t3 =
            (Inr b', ?t3 @ [Sent (license_request cfg)])"
          using r3 by simp
        have "workflow_steps cfg srv tr' =
            (Inr (), info (''License request submitted successfully for '' @ email cfg)
               (?t3 @ [Sent (license_request cfg)]))"
          unfolding workflow_steps_def by (simp only: e1 l3 r4 prod.case sum.case)
        then show ?thesis
          using e l Inr assms by simp
      qed
    qed
  qed
  from both show "fst (workflow_steps cfg srv tr') =
      (case ?e of Inl e \<Rightarrow> Inl e
       | Inr _ \<Rightarrow> (case ?l of Inl e \<Rightarrow> Inl e
           | Inr _ \<Rightarrow> (case ?r of Inl e \<Rightarrow> Inl e | Inr _ \<Rightarrow> Inr ())))"
    by (rule conjunct1)
  from both show "sent (snd (workflow_steps cfg srv tr')) =
      sent tr @
      (case ?e of Inl _ \<Rightarrow> [homepage_request cfg]
       | Inr _ \<Rightarrow> (case ?l of Inl _ \<Rightarrow> [homepage_request cfg, login_request cfg]
           | Inr _ \<Rightarrow> [homepage_request cfg, login_request cfg, license_request cfg]))"
    by (rule conjunct2)
qed

lemma request_license_fst:
  "fst (request_license cfg srv tr) =
     (fst (workflow_steps cfg srv
        (info ''Starting Nexacro license request workflow'' tr @ [SessionCreated])) = Inr ())"
  by (simp add: request_license_def split: prod.splits sum.splits)

lemma request_license_sent:
  "sent (snd (request_license cfg srv tr)) =
     sent (snd (workflow_steps cfg srv
        (info ''Starting Nexacro license request workflow'' tr @ [SessionCreated])))"
  by (simp add: request_license_def split: prod.splits sum.splits)

lemma sent_start [simp]:
  "sent (info ''Starting Nexacro license request workflow'' tr @ [SessionCreated]) = sent tr"
  by simp

lemma workflow_steps_cong:
  "sent tr' = sent tr \<Longrightarrow> fst (workflow_steps cfg srv tr') = fst (workflow_steps cfg srv tr)"
  using workflow_steps_result(1) [of tr' tr cfg srv] workflow_steps_result(1) [of tr tr cfg srv]
  by simp

lemma request_license_fst_steps:
  "fst (request_license cfg srv tr) = (fst (workflow_steps cfg srv tr) = Inr ())"
  unfolding request_license_fst
  using workflow_steps_cong
      [of "info ''Starting Nexacro license request workflow'' tr @ [SessionCreated]" tr cfg srv]
  by simp

lemma request_license_sent_steps:
  "sent (snd (request_license cfg srv tr)) = sent (snd (workflow_steps cfg srv tr))"
  unfolding request_license_sent
  using workflow_steps_result(2)
      [of "info ''Starting Nexacro license request workflow'' tr @ [SessionCreated]" tr cfg srv]
    workflow_steps_result(2) [of tr tr cfg srv]
  by simp

lemma requests_distinct:
  "license_request cfg \<noteq> homepage_request cfg" "license_request cfg \<noteq> login_request cfg"
  by (simp_all add: license_request_def homepage_request_def login_request_def
      build_license_params_def)

lemma establish_session_scripted_returns:
  "fst (establish_session cfg (scripted (Returns (ok_response body) # rs)) []) = Inr []"
  by (simp add: establish_session_def send_def scripted_def raise_for_status_def
      dict_of_items_def ok_response_def ok_text_def)

lemma establish_session_scripted_raises:
  "fst (establish_session cfg (scripted (Raises e # rs)) []) =
     (if cls e = Timeout then Inl (Exn NetworkError (''Request timeout: '' @ homepage_url cfg))
      else if cls e = ConnectionError then
        Inl (Exn NetworkError (''Connection failed: '' @ homepage_url cfg))
      else if cls e = HTTPError then Inl (Exn NetworkError (''HTTP error: '' @ msg e))
      else Inl e)"
  by (simp add: establish_session_def send_def scripted_def)

lemma login_scripted_returns:
  "fst (login cfg (scripted (r0 # Returns (ok_response body) # rs)) [Sent q]) =
     (if str_contains (codes ''SUCCESS'') (upper (codes body)) then Inr True
      else Inl (Exn AuthenticationError ''Login failed: Invalid credentials or response''))"
  using login_returns
      [of "scripted (r0 # Returns (ok_response body) # rs)" "[Sent q]" cfg "ok_response body"]
  by (simp add: scripted_def)

lemma request_license_email_scripted_returns:
  "fst (request_license_email cfg (scripted (r0 # r1 # Returns (ok_response body) # rs))
          [Sent q0, Sent q1]) =
     (if str_contains (codes ''FAIL'') (upper (codes body)) then
        Inl (Exn LicenseRequestError ''License request failed'')
      else if str_contains (codes ''SUCCESS'') (upper (codes body)) then Inr True
      else Inl (Exn LicenseRequestError ''License request failed: Unknown response''))"
  using request_license_email_returns
      [of "scripted (r0 # r1 # Returns (ok_response body) # rs)" "[Sent q0, Sent q1]" cfg
          "ok_response body"]
  by (simp add: scripted_def)

lemma establish_session_replying: "fst (establish_session cfg (replying body) tr) = Inr []"
  by (simp add: establish_session_def send_def replying_def raise_for_status_def
      dict_of_items_def ok_response_def ok_text_def)

lemma contains_examples:
  "\<not> str_contains (codes ''SUCCESS'') (upper (codes ''FAIL''))"
  "str_contains (codes ''SUCCESS'') (upper (codes ''SUCCESS''))"
  "str_contains (codes ''FAIL'') (upper (codes ''FAIL''))"
  "\<not> str_contains (codes ''FAIL'') (upper (codes ''SUCCESS''))"
  by (simp_all add: upper_def upper_full_def codes_def)

lemma from_env_env_complete: "from_env env_complete = Inr cfg_example"
  by (simp add: from_env_def missing_vars_def required_vars_def not_getenv_def
      environ_item_def env_complete_def cfg_example_def)

lemma validate_cfg_example: "validate cfg_example = Inr ()"
  by (simp add: validate_def cfg_example_def Config_def)

lemma workflow_steps_srv_timeout:
  "fst (workflow_steps cfg_example srv_timeout []) =
     Inl (Exn NetworkError (''Request timeout: '' @ homepage_url cfg_example))"
  using workflow_steps_result(1) [of "[]" "[]" cfg_example srv_timeout]
  by (simp add: srv_timeout_def establish_session_scripted_raises)

lemma workflow_steps_srv_redirects:
  "fst (workflow_steps cfg_example srv_redirects []) =
     Inl (Exn OtherException ''Exceeded 30 redirects.'')"
  using workflow_steps_result(1) [of "[]" "[]" cfg_example srv_redirects]
  by (simp add: srv_redirects_def establish_session_scripted_raises)

lemma workflow_steps_srv_login_rejected:
  "fst (workflow_steps cfg_example srv_login_rejected []) =
     Inl (Exn AuthenticationError ''Login failed: Invalid credentials or response'')"
  using workflow_steps_result(1) [of "[]" "[]" cfg_example srv_login_rejected]
  by (simp add: srv_login_rejected_def establish_session_scripted_returns
      login_scripted_returns contains_examples)

lemma workflow_steps_srv_license_failed:
  "fst (workflow_steps cfg_example srv_license_failed []) =
     Inl (Exn LicenseRequestError ''License request failed'')"
  using workflow_steps_result(1) [of "[]" "[]" cfg_example srv_license_failed]
  by (simp add: srv_license_failed_def establish_session_scripted_returns
      login_scripted_returns request_license_email_scripted_returns contains_examples)

lemma workflow_steps_replying_SUCCESS:
  "fst (workflow_steps cfg (replying ''SUCCESS'') []) = Inr ()"
  using workflow_steps_result(1) [of "[]" "[]" cfg "replying ''SUCCESS''"]
  by (simp add: establish_session_replying login_replying request_license_email_replying
      contains_examples)

lemma homepage_url_cfg_example:
  "homepage_url cfg_example = ''https://support.tobesoft.co.kr/Support/?menu=home''"
  by (simp add: cfg_example_def Config_def)

lemma workflow_steps_replying_FAIL:
  "fst (workflow_steps cfg (replying ''FAIL'') []) =
     Inl (Exn AuthenticationError ''Login failed: Invalid credentials or response'')"
  using workflow_steps_result(1) [of "[]" "[]" cfg "replying ''FAIL''"]
  by (simp add: establish_session_replying login_replying contains_examples)

lemma from_env_env_two_missing:
  "from_env env_two_missing =
     Inl (Exn ValueError
           ''Missing required environment variables: NEXACRO_USER_PASS, NEXACRO_EMAIL'')"
  by (simp add: from_env_def missing_vars_def required_vars_def not_getenv_def
      env_two_missing_def)

lemma from_env_env_bad_email:
  "from_env env_bad_email = Inr (Config ''dev'' ''secret'' ''dev'' ''dev.example.com'')"
  by (simp add: from_env_def missing_vars_def required_vars_def not_getenv_def
      environ_item_def env_bad_email_def)

lemma validate_bad_email:
  "validate (Config ''dev'' ''secret'' ''dev'' ''dev.example.com'') =
     Inl (Exn ValueError ''Invalid email format: dev.example.com'')"
  by (simp add: validate_def Config_def)

section \<open>Properties of the configuration\<close>

text \<open>
  C5, as stated, fails: \<open>from_env\<close> does not succeed whenever the three variables are
  present. With \<open>NEXACRO_USER_ID\<close> set to the empty string and the other two set,
  all three are present and \<open>from_env\<close> raises.
\<close>

theorem from_env_present_but_empty_counterexample:
  "env_empty_user_id ''NEXACRO_USER_ID'' = Some [] \<and>
   env_empty_user_id ''NEXACRO_USER_PASS'' = Some ''secret'' \<and>
   env_empty_user_id ''NEXACRO_EMAIL'' = Some ''dev@example.com'' \<and>
   from_env env_empty_user_id =
     Inl (Exn ValueError ''Missing required environment variables: NEXACRO_USER_ID'')"
  by (simp add: env_empty_user_id_def from_env_def missing_vars_def required_vars_def
      not_getenv_def)

text \<open>
  C5, amended: a required variable counts as missing when it is unset or set to the empty
  string. \<open>from_env\<close> raises \<open>ValueError\<close> exactly when some required variable is missing
  in this sense; the message lists all of them, in the order of \<open>required_vars\<close>, separated
  by a comma and a space, so every missing name occurs in it. When none is missing,
  \<open>from_env\<close> returns the configuration built from the three values.
\<close>

theorem from_env_missing_or_empty:
  "(from_env env =
      (if [v \<leftarrow> required_vars. env v = None \<or> env v = Some []] = [] then
         Inr (Config (the (env ''NEXACRO_USER_ID'')) (the (env ''NEXACRO_USER_PASS''))
                (the (env ''NEXACRO_USER_ID'')) (the (env ''NEXACRO_EMAIL'')))
       else
         Inl (Exn ValueError
               (''Missing required environment variables: '' @
                join '', '' [v \<leftarrow> required_vars. env v = None \<or> env v = Some []])))) \<and>
   (\<forall>v \<in> set required_vars.
      env v = None \<or> env v = Some [] \<longrightarrow>
      str_contains v
        (''Missing required environment variables: '' @
         join '', '' [v \<leftarrow> required_vars. env v = None \<or> env v = Some []]))"
proof (intro conjI ballI impI)
  show "from_env env =
      (if [v \<leftarrow> required_vars. env v = None \<or> env v = Some []] = [] then
         Inr (Config (the (env ''NEXACRO_USER_ID'')) (the (env ''NEXACRO_USER_PASS''))
                (the (env ''NEXACRO_USER_ID'')) (the (env ''NEXACRO_EMAIL'')))
       else
         Inl (Exn ValueError
               (''Missing required environment variables: '' @
                join '', '' [v \<leftarrow> required_vars. env v = None \<or> env v = Some []])))"
  proof (cases "missing_vars env = []")
    case True
    from from_env_ok [OF True] True show ?thesis
      by (auto simp: missing_vars_alt)
  next
    case False
    from from_env_fail [OF False] False show ?thesis
      by (simp add: missing_vars_alt)
  qed
next
  fix v
  assume "v \<in> set required_vars" and "env v = None \<or> env v = Some []"
  then have "v \<in> set (missing_vars env)"
    by (rule missing_vars_mem)
  then have "str_contains v (join '', '' (missing_vars env))"
    by (simp add: str_contains_sublist join_mem_sublist)
  then show "str_contains v
        (''Missing required environment variables: '' @
         join '', '' [v \<leftarrow> required_vars. env v = None \<or> env v = Some []])"
    unfolding missing_vars_alt by (rule str_contains_append_left)
qed

theorem from_env_missing_or_empty_witness:
  "from_env env_two_missing =
     Inl (Exn ValueError
           ''Missing required environment variables: NEXACRO_USER_PASS, NEXACRO_EMAIL'') \<and>
   str_contains ''NEXACRO_USER_PASS''
     ''Missing required environment variables: NEXACRO_USER_PASS, NEXACRO_EMAIL'' \<and>
   str_contains ''NEXACRO_EMAIL''
     ''Missing required environment variables: NEXACRO_USER_PASS, NEXACRO_EMAIL'' \<and>
   from_env env_complete = Inr (Config ''dev'' ''secret'' ''dev'' ''dev@example.com'')"
  using from_env_missing_or_empty [of env_two_missing]
    from_env_missing_or_empty [of env_complete]
  by (simp add: env_two_missing_def env_complete_def required_vars_def)

text \<open>
  C9: a required variable set to the empty string is treated exactly as an unset one:
  \<open>from_env\<close> gives the same result for both environments, and this result is the
  \<open>ValueError\<close> whose message contains the variable's name.
\<close>

theorem from_env_empty_as_absent:
  assumes "v \<in> set required_vars"
  shows "from_env (env(v \<mapsto> [])) = from_env (env(v := None)) \<and>
     (\<exists>m. from_env (env(v \<mapsto> [])) = Inl (Exn ValueError m) \<and> str_contains v m)"
proof -
  have mem: "v \<in> set (missing_vars (env(v \<mapsto> [])))"
    using assms by (simp add: missing_vars_mem)
  then have ne: "missing_vars (env(v \<mapsto> [])) \<noteq> []"
    by auto
  then have ne': "missing_vars (env(v := None)) \<noteq> []"
    by (simp add: missing_vars_update_empty)
  have "from_env (env(v \<mapsto> [])) = from_env (env(v := None))"
    using from_env_fail [OF ne] from_env_fail [OF ne']
    by (simp add: missing_vars_update_empty)
  moreover have "str_contains v
     (''Missing required environment variables: '' @ join '', '' (missing_vars (env(v \<mapsto> []))))"
    using mem by (intro str_contains_append_left) (simp add: str_contains_sublist join_mem_sublist)
  ultimately show ?thesis
    using from_env_fail [OF ne] by blast
qed

theorem from_env_empty_as_absent_witness:
  "''NEXACRO_EMAIL'' \<in> set required_vars \<and>
   from_env (env_complete(''NEXACRO_EMAIL'' \<mapsto> [])) =
     Inl (Exn ValueError ''Missing required environment variables: NEXACRO_EMAIL'') \<and>
   from_env (env_complete(''NEXACRO_EMAIL'' := None)) =
     Inl (Exn ValueError ''Missing required environment variables: NEXACRO_EMAIL'') \<and>
   str_contains ''NEXACRO_EMAIL'' ''Missing required environment variables: NEXACRO_EMAIL''"
  using from_env_empty_as_absent [of "''NEXACRO_EMAIL''" env_complete]
  by (simp add: env_complete_def required_vars_def from_env_def missing_vars_def not_getenv_def)

section \<open>Properties of the session manager\<close>

text \<open>
  In the theorems of this section the remote side answers the request with a response \<open>r\<close>
  whose status is not an error status, so that the body \<open>resp_text r\<close> is classified.
\<close>

text \<open>
  C1, as stated, fails when ``contains'' is the containment of the substring as written.
  The body \<open>fail SUCCESS\<close> does not contain \<open>FAIL\<close> and contains \<open>SUCCESS\<close>, and
  \<open>request_license_email\<close> raises \<open>LicenseRequestError\<close> for it; the body \<open>success\<close>
  contains neither and \<open>request_license_email\<close> returns \<open>True\<close>.
\<close>

theorem license_literal_precedence_counterexample:
  "\<not> str_contains (codes ''FAIL'') (codes ''fail SUCCESS'') \<and>
   str_contains (codes ''SUCCESS'') (codes ''fail SUCCESS'') \<and>
   fst (request_license_email cfg_example (replying ''fail SUCCESS'') []) =
     Inl (Exn LicenseRequestError ''License request failed'') \<and>
   \<not> str_contains (codes ''FAIL'') (codes ''success'') \<and>
   \<not> str_contains (codes ''SUCCESS'') (codes ''success'') \<and>
   fst (request_license_email cfg_example (replying ''success'') []) = Inr True"
  by (simp add: request_license_email_replying upper_def upper_full_def codes_def)

text \<open>
  C1, amended: the precedence is the stated one, on the uppercased body (the result of
  \<open>str.upper\<close>). If the uppercased body contains \<open>FAIL\<close>, \<open>request_license_email\<close> raises
  \<open>LicenseRequestError\<close>; otherwise, if it contains \<open>SUCCESS\<close>, the result is \<open>True\<close>;
  otherwise it raises \<open>LicenseRequestError\<close> with the distinct message ending in
  \<open>Unknown response\<close>. In particular a body that contains \<open>FAIL\<close> as written is a failure
  whatever else it contains, and the empty body is the unknown-response failure.
\<close>

theorem license_classification_precedence:
  assumes "srv (sent tr) (license_request cfg) = Returns r" and "status_error r = None"
  shows "fst (request_license_email cfg srv tr) =
       (if str_contains (codes ''FAIL'') (upper (resp_text r)) then
          Inl (Exn LicenseRequestError ''License request failed'')
        else if str_contains (codes ''SUCCESS'') (upper (resp_text r)) then Inr True
        else Inl (Exn LicenseRequestError ''License request failed: Unknown response'')) \<and>
     (str_contains (codes ''FAIL'') (resp_text r) \<longrightarrow>
        fst (request_license_email cfg srv tr) =
          Inl (Exn LicenseRequestError ''License request failed'')) \<and>
     (resp_text r = [] \<longrightarrow>
        fst (request_license_email cfg srv tr) =
          Inl (Exn LicenseRequestError ''License request failed: Unknown response''))"
proof (intro conjI impI)
  show "fst (request_license_email cfg srv tr) =
       (if str_contains (codes ''FAIL'') (upper (resp_text r)) then
          Inl (Exn LicenseRequestError ''License request failed'')
        else if str_contains (codes ''SUCCESS'') (upper (resp_text r)) then Inr True
        else Inl (Exn LicenseRequestError ''License request failed: Unknown response''))"
    using assms by (rule request_license_email_returns)
next
  assume "str_contains (codes ''FAIL'') (resp_text r)"
  then have "str_contains (codes ''FAIL'') (upper (resp_text r))"
    using str_contains_upper_mono [of "codes ''FAIL''" "resp_text r"] by (simp add: upper_FAIL)
  then show "fst (request_license_email cfg srv tr) =
          Inl (Exn LicenseRequestError ''License request failed'')"
    using request_license_email_returns [of srv tr cfg r] assms by simp
next
  assume "resp_text r = []"
  then show "fst (request_license_email cfg srv tr) =
          Inl (Exn LicenseRequestError ''License request failed: Unknown response'')"
    using request_license_email_returns [of srv tr cfg r] assms
    by (simp add: upper_def codes_def)
qed

theorem license_classification_precedence_witness:
  "replying ''FAIL after SUCCESS'' (sent []) (license_request cfg_example) =
     Returns (ok_response ''FAIL after SUCCESS'') \<and>
   status_error (ok_response ''FAIL after SUCCESS'') = None \<and>
   str_contains (codes ''FAIL'') (codes ''FAIL after SUCCESS'') \<and>
   str_contains (codes ''SUCCESS'') (codes ''FAIL after SUCCESS'') \<and>
   fst (request_license_email cfg_example (replying ''FAIL after SUCCESS'') []) =
     Inl (Exn LicenseRequestError ''License request failed'') \<and>
   fst (request_license_email cfg_example (replying []) []) =
     Inl (Exn LicenseRequestError ''License request failed: Unknown response'') \<and>
   upper body_dotless_i = codes ''SUCCESS FAIL'' \<and>
   fst (request_license_email cfg_example (scripted [Returns (ok_text body_dotless_i)]) []) =
     Inl (Exn LicenseRequestError ''License request failed'')"
  using license_classification_precedence
      [of "replying ''FAIL after SUCCESS''" "[]" cfg_example "ok_response ''FAIL after SUCCESS''"]
    license_classification_precedence [of "replying []" "[]" cfg_example "ok_response []"]
    license_classification_precedence
      [of "scripted [Returns (ok_text body_dotless_i)]" "[]" cfg_example
          "ok_text body_dotless_i"]
  by (simp add: replying_returns scripted_first body_dotless_i_def upper_def codes_def
      upper_full_ascii upper_full_examples)

text \<open>
  C10: the classification of the license response compares the uppercased body with
  \<open>FAIL\<close> and \<open>SUCCESS\<close>, so it ignores case. A body is a failure when some run of it
  uppercases to \<open>FAIL\<close>, as lowercase \<open>fail\<close> does; a body whose uppercase form does not
  contain \<open>FAIL\<close> is a success when some run of it uppercases to \<open>SUCCESS\<close>, as lowercase
  \<open>success\<close> does. For a body of ASCII characters this is the whole classification: it is a
  failure exactly when some run of it is \<open>FAIL\<close> in some mix of cases, and otherwise a
  success exactly when some run of it is \<open>SUCCESS\<close> in some mix of cases.
\<close>

theorem license_classification_case_insensitive:
  assumes "srv (sent tr) (license_request cfg) = Returns r" and "status_error r = None"
  shows "fst (request_license_email cfg srv tr) =
       (if str_contains (codes ''FAIL'') (upper (resp_text r)) then
          Inl (Exn LicenseRequestError ''License request failed'')
        else if str_contains (codes ''SUCCESS'') (upper (resp_text r)) then Inr True
        else Inl (Exn LicenseRequestError ''License request failed: Unknown response'')) \<and>
     (\<forall>w. str_contains w (resp_text r) \<and> upper w = codes ''FAIL'' \<longrightarrow>
        fst (request_license_email cfg srv tr) =
          Inl (Exn LicenseRequestError ''License request failed'')) \<and>
     (\<forall>w. str_contains w (resp_text r) \<and> upper w = codes ''SUCCESS'' \<and>
          \<not> str_contains (codes ''FAIL'') (upper (resp_text r)) \<longrightarrow>
        fst (request_license_email cfg srv tr) = Inr True) \<and>
     (str_contains (codes ''fail'') (resp_text r) \<longrightarrow>
        fst (request_license_email cfg srv tr) =
          Inl (Exn LicenseRequestError ''License request failed'')) \<and>
     (str_contains (codes ''success'') (resp_text r) \<and>
      \<not> str_contains (codes ''FAIL'') (upper (resp_text r)) \<longrightarrow>
        fst (request_license_email cfg srv tr) = Inr True) \<and>
     ((\<forall>c \<in> set (resp_text r). c < 128) \<longrightarrow>
        fst (request_license_email cfg srv tr) =
          (if \<exists>w. str_contains w (resp_text r) \<and> upper w = codes ''FAIL'' then
             Inl (Exn LicenseRequestError ''License request failed'')
           else if \<exists>w. str_contains w (resp_text r) \<and> upper w = codes ''SUCCESS'' then
             Inr True
           else Inl (Exn LicenseRequestError ''License request failed: Unknown response'')))"
proof -
  let ?res = "fst (request_license_email cfg srv tr)"
  have eq: "?res =
       (if str_contains (codes ''FAIL'') (upper (resp_text r)) then
          Inl (Exn LicenseRequestError ''License request failed'')
        else if str_contains (codes ''SUCCESS'') (upper (resp_text r)) then Inr True
        else Inl (Exn LicenseRequestError ''License request failed: Unknown response''))"
    using assms by (rule request_license_email_returns)
  have run: "str_contains p (upper (resp_text r))"
    if "str_contains w (resp_text r)" and "upper w = p" for w p
    using str_contains_upper_mono [OF that(1)] that(2) by simp
  have fail: "?res = Inl (Exn LicenseRequestError ''License request failed'')"
    if "str_contains w (resp_text r)" and "upper w = codes ''FAIL''" for w
    using run [OF that] eq by simp
  have success: "?res = Inr True"
    if "str_contains w (resp_text r)" and "upper w = codes ''SUCCESS''"
      and "\<not> str_contains (codes ''FAIL'') (upper (resp_text r))" for w
    using run [OF that(1,2)] that(3) eq by simp
  have ascii: "?res =
          (if \<exists>w. str_contains w (resp_text r) \<and> upper w = codes ''FAIL'' then
             Inl (Exn LicenseRequestError ''License request failed'')
           else if \<exists>w. str_contains w (resp_text r) \<and> upper w = codes ''SUCCESS'' then
             Inr True
           else Inl (Exn LicenseRequestError ''License request failed: Unknown response''))"
    if "\<forall>c \<in> set (resp_text r). c < 128"
    unfolding str_contains_upper_ascii_iff [OF that, symmetric] by (rule eq)
  show ?thesis
  proof (intro conjI allI impI)
    show "?res =
       (if str_contains (codes ''FAIL'') (upper (resp_text r)) then
          Inl (Exn LicenseRequestError ''License request failed'')
        else if str_contains (codes ''SUCCESS'') (upper (resp_text r)) then Inr True
        else Inl (Exn LicenseRequestError ''License request failed: Unknown response''))"
      by (rule eq)
  next
    fix w
    assume "str_contains w (resp_text r) \<and> upper w = codes ''FAIL''"
    then show "?res = Inl (Exn LicenseRequestError ''License request failed'')"
      using fail by blast
  next
    fix w
    assume "str_contains w (resp_text r) \<and> upper w = codes ''SUCCESS'' \<and>
      \<not> str_contains (codes ''FAIL'') (upper (resp_text r))"
    then show "?res = Inr True"
      using success by blast
  next
    assume "str_contains (codes ''fail'') (resp_text r)"
    then show "?res = Inl (Exn LicenseRequestError ''License request failed'')"
      using fail upper_FAIL(1) by blast
  next
    assume "str_contains (codes ''success'') (resp_text r) \<and>
      \<not> str_contains (codes ''FAIL'') (upper (resp_text r))"
    then show "?res = Inr True"
      using success upper_SUCCESS(1) by blast
  next
    assume "\<forall>c \<in> set (resp_text r). c < 128"
    then show "?res =
          (if \<exists>w. str_contains w (resp_text r) \<and> upper w = codes ''FAIL'' then
             Inl (Exn LicenseRequestError ''License request failed'')
           else if \<exists>w. str_contains w (resp_text r) \<and> upper w = codes ''SUCCESS'' then
             Inr True
           else Inl (Exn LicenseRequestError ''License request failed: Unknown response''))"
      by (rule ascii)
  qed
qed

theorem license_classification_case_insensitive_witness:
  "replying ''Request failed'' (sent []) (license_request cfg_example) =
     Returns (ok_response ''Request failed'') \<and>
   status_error (ok_response ''Request failed'') = None \<and>
   str_contains (codes ''fail'') (codes ''Request failed'') \<and>
   fst (request_license_email cfg_example (replying ''Request failed'') []) =
     Inl (Exn LicenseRequestError ''License request failed'') \<and>
   str_contains (codes ''success'') (codes ''success'') \<and>
   \<not> str_contains (codes ''FAIL'') (upper (codes ''success'')) \<and>
   fst (request_license_email cfg_example (replying ''success'') []) = Inr True \<and>
   upper body_sharp_s = codes ''SUCCESS'' \<and>
   fst (request_license_email cfg_example (scripted [Returns (ok_text body_sharp_s)]) []) =
     Inr True"
  using license_classification_case_insensitive
      [of "replying ''Request failed''" "[]" cfg_example "ok_response ''Request failed''"]
    license_classification_case_insensitive
      [of "replying ''success''" "[]" cfg_example "ok_response ''success''"]
    license_classification_case_insensitive
      [of "scripted [Returns (ok_text body_sharp_s)]" "[]" cfg_example "ok_text body_sharp_s"]
  by (simp add: replying_returns scripted_first body_sharp_s_def upper_def codes_def
      upper_full_ascii upper_full_examples)

text \<open>
  C3: \<open>login\<close> returns \<open>True\<close> if and only if the uppercased body contains \<open>SUCCESS\<close>, and
  raises \<open>AuthenticationError\<close> for every other body, the empty one included. Every body
  with a run that uppercases to \<open>SUCCESS\<close> is accepted; for a body of ASCII characters the
  condition is exactly that some run of it is \<open>SUCCESS\<close> in some mix of cases.
\<close>

theorem login_success_iff:
  assumes "srv (sent tr) (login_request cfg) = Returns r" and "status_error r = None"
  shows "fst (login cfg srv tr) =
       (if str_contains (codes ''SUCCESS'') (upper (resp_text r)) then Inr True
        else Inl (Exn AuthenticationError ''Login failed: Invalid credentials or response'')) \<and>
     (\<forall>w. str_contains w (resp_text r) \<and> upper w = codes ''SUCCESS'' \<longrightarrow>
        fst (login cfg srv tr) = Inr True) \<and>
     ((\<forall>c \<in> set (resp_text r). c < 128) \<longrightarrow>
        fst (login cfg srv tr) =
          (if \<exists>w. str_contains w (resp_text r) \<and> upper w = codes ''SUCCESS'' then Inr True
           else Inl (Exn AuthenticationError
                       ''Login failed: Invalid credentials or response''))) \<and>
     (resp_text r = [] \<longrightarrow>
        fst (login cfg srv tr) =
          Inl (Exn AuthenticationError ''Login failed: Invalid credentials or response''))"
proof (intro conjI allI impI)
  show eq: "fst (login cfg srv tr) =
       (if str_contains (codes ''SUCCESS'') (upper (resp_text r)) then Inr True
        else Inl (Exn AuthenticationError ''Login failed: Invalid credentials or response''))"
    using assms by (rule login_returns)
  {
    fix w
    assume "str_contains w (resp_text r) \<and> upper w = codes ''SUCCESS''"
    then have "str_contains (codes ''SUCCESS'') (upper (resp_text r))"
      using str_contains_upper_mono [of w "resp_text r"] by auto
    then show "fst (login cfg srv tr) = Inr True"
      using eq by simp
  }
  {
    assume ascii: "\<forall>c \<in> set (resp_text r). c < 128"
    show "fst (login cfg srv tr) =
          (if \<exists>w. str_contains w (resp_text r) \<and> upper w = codes ''SUCCESS'' then Inr True
           else Inl (Exn AuthenticationError
                       ''Login failed: Invalid credentials or response''))"
      unfolding str_contains_upper_ascii_iff [OF ascii, symmetric] by (rule eq)
  }
  {
    assume "resp_text r = []"
    then show "fst (login cfg srv tr) =
          Inl (Exn AuthenticationError ''Login failed: Invalid credentials or response'')"
      using eq by (simp add: upper_def codes_def)
  }
qed

theorem login_success_iff_witness:
  "replying ''Login Success'' (sent []) (login_request cfg_example) =
     Returns (ok_response ''Login Success'') \<and>
   status_error (ok_response ''Login Success'') = None \<and>
   fst (login cfg_example (replying ''Login Success'') []) = Inr True \<and>
   fst (login cfg_example (replying ''<html>Welcome</html>'') []) =
     Inl (Exn AuthenticationError ''Login failed: Invalid credentials or response'') \<and>
   fst (login cfg_example (replying []) []) =
     Inl (Exn AuthenticationError ''Login failed: Invalid credentials or response'') \<and>
   upper body_sharp_s = codes ''SUCCESS'' \<and>
   fst (login cfg_example (scripted [Returns (ok_text body_sharp_s)]) []) = Inr True"
  using login_success_iff
      [of "replying ''Login Success''" "[]" cfg_example "ok_response ''Login Success''"]
    login_success_iff
      [of "replying ''<html>Welcome</html>''" "[]" cfg_example
          "ok_response ''<html>Welcome</html>''"]
    login_success_iff [of "replying []" "[]" cfg_example "ok_response []"]
    login_success_iff
      [of "scripted [Returns (ok_text body_sharp_s)]" "[]" cfg_example "ok_text body_sharp_s"]
  by (simp add: replying_returns scripted_first body_sharp_s_def upper_def codes_def
      upper_full_ascii upper_full_examples)


text \<open>
  C7: in every configuration that \<open>from_env\<close> returns, \<open>customer_id\<close> equals \<open>user_id\<close>, the
  value of \<open>NEXACRO_USER_ID\<close>. No other input is read for it: whatever
  \<open>NEXACRO_CUSTOMER_ID\<close> is set to, the configuration is the same. This value is the
  parameter \<open>p_CustomID\<close> of the request that \<open>request_license_email\<close> sends.
\<close>

theorem customer_id_is_user_id:
  assumes "from_env env = Inr cfg"
  shows "customer_id cfg = user_id cfg \<and>
     env ''NEXACRO_USER_ID'' = Some (user_id cfg) \<and>
     from_env (env(''NEXACRO_CUSTOMER_ID'' := other)) = Inr cfg \<and>
     map_of (build_license_params cfg) ''p_CustomID'' = Some (user_id cfg) \<and>
     sent (snd (request_license_email cfg srv tr)) = sent tr @ [license_request cfg] \<and>
     map_of (params (license_request cfg)) ''p_CustomID'' = Some (user_id cfg)"
proof -
  obtain u p m where env: "env ''NEXACRO_USER_ID'' = Some u" and cfg: "cfg = Config u p u m"
    using from_env_Inr [OF assms] by blast
  have "from_env (env(''NEXACRO_CUSTOMER_ID'' := other)) = from_env env"
    by (rule from_env_cong) (simp add: required_vars_def)
  with assms have "from_env (env(''NEXACRO_CUSTOMER_ID'' := other)) = Inr cfg"
    by simp
  moreover have "customer_id cfg = user_id cfg" and "user_id cfg = u"
    by (simp_all add: cfg Config_def)
  moreover from \<open>customer_id cfg = user_id cfg\<close>
  have "map_of (build_license_params cfg) ''p_CustomID'' = Some (user_id cfg)"
    by (simp add: build_license_params_def)
  moreover have "sent (snd (request_license_email cfg srv tr)) = sent tr @ [license_request cfg]"
    by (simp add: snd_request_license_email)
  ultimately show ?thesis
    using env by (simp add: license_request_def)
qed

theorem customer_id_is_user_id_witness:
  "from_env env_complete = Inr cfg_example \<and>
   customer_id cfg_example = ''dev'' \<and>
   user_id cfg_example = ''dev'' \<and>
   from_env (env_complete(''NEXACRO_CUSTOMER_ID'' \<mapsto> ''customer'')) = Inr cfg_example \<and>
   map_of (build_license_params cfg_example) ''p_CustomID'' = Some ''dev'' \<and>
   sent (snd (request_license_email cfg_example (replying ''SUCCESS'') [])) =
     [license_request cfg_example]"
proof -
  have ok: "from_env env_complete = Inr cfg_example"
    by (simp add: from_env_def missing_vars_def required_vars_def not_getenv_def
        environ_item_def env_complete_def cfg_example_def)
  have uid: "user_id cfg_example = ''dev''"
    by (simp add: cfg_example_def Config_def)
  show ?thesis
    using ok uid
      customer_id_is_user_id [OF ok, of "Some ''customer''" "replying ''SUCCESS''" "[]"]
    by simp
qed

text \<open>
  C6 does not hold of \<open>build_login_xml\<close>: the credentials are inserted into the element
  bodies as they are. For the password \<open>a<b&c\<close> the document contains the element
  \<open><Col id="userPass">a<b&c</Col>\<close>, with the characters \<open><\<close> and \<open>&\<close> unescaped, and
  contains neither \<open>&lt;\<close> nor \<open>&amp;\<close>; it is not a well-formed XML document.
\<close>

theorem build_login_xml_inserts_verbatim:
  \<open>str_contains ''<Col id="userPass">a<b&c</Col>'' (build_login_xml cfg_markup) \<and>
   \<not> str_contains ''&lt;'' (build_login_xml cfg_markup) \<and>
   \<not> str_contains ''&amp;'' (build_login_xml cfg_markup)\<close>
  by code_simp


section \<open>Properties of the orchestrator\<close>

text \<open>
  C2: the workflow stops at the first step that raises. The result of a step depends on the
  run so far only through the requests sent before it, so the three steps are taken at the
  traces that hold just these requests. If \<open>establish_session\<close> raises, \<open>request_license\<close>
  returns \<open>False\<close> and has sent the homepage request only; if \<open>login\<close> raises, it returns
  \<open>False\<close> and has sent the homepage request and the login request only; if
  \<open>request_license_email\<close> raises, it returns \<open>False\<close> after the three requests. The
  license request differs from the other two, so in the first two cases it is not among the
  requests sent. \<open>request_license\<close> is a total function into the Booleans: no exception
  leaves it.
\<close>

theorem workflow_stops_at_first_failure:
  "(\<forall>e. fst (establish_session cfg srv tr) = Inl e \<longrightarrow>
      \<not> fst (request_license cfg srv tr) \<and>
      sent (snd (request_license cfg srv tr)) = sent tr @ [homepage_request cfg]) \<and>
   (\<forall>cks e.
      fst (establish_session cfg srv tr) = Inr cks \<and>
      fst (login cfg srv (tr @ [Sent (homepage_request cfg)])) = Inl e \<longrightarrow>
      \<not> fst (request_license cfg srv tr) \<and>
      sent (snd (request_license cfg srv tr)) =
        sent tr @ [homepage_request cfg, login_request cfg]) \<and>
   (\<forall>cks ok e.
      fst (establish_session cfg srv tr) = Inr cks \<and>
      fst (login cfg srv (tr @ [Sent (homepage_request cfg)])) = Inr ok \<and>
      fst (request_license_email cfg srv
             (tr @ [Sent (homepage_request cfg), Sent (login_request cfg)])) = Inl e \<longrightarrow>
      \<not> fst (request_license cfg srv tr) \<and>
      sent (snd (request_license cfg srv tr)) =
        sent tr @ [homepage_request cfg, login_request cfg, license_request cfg]) \<and>
   license_request cfg \<noteq> homepage_request cfg \<and>
   license_request cfg \<noteq> login_request cfg"
  unfolding request_license_fst_steps request_license_sent_steps
  using workflow_steps_result [of tr tr cfg srv] requests_distinct [of cfg]
  by simp

theorem workflow_stops_at_first_failure_witness:
  "fst (establish_session cfg_example srv_login_rejected []) = Inr [] \<and>
   fst (login cfg_example srv_login_rejected [Sent (homepage_request cfg_example)]) =
     Inl (Exn AuthenticationError ''Login failed: Invalid credentials or response'') \<and>
   \<not> fst (request_license cfg_example srv_login_rejected []) \<and>
   sent (snd (request_license cfg_example srv_login_rejected [])) =
     [homepage_request cfg_example, login_request cfg_example] \<and>
   license_request cfg_example \<notin>
     set (sent (snd (request_license cfg_example srv_login_rejected []))) \<and>
   fst (establish_session cfg_example srv_timeout []) =
     Inl (Exn NetworkError (''Request timeout: '' @ homepage_url cfg_example)) \<and>
   \<not> fst (request_license cfg_example srv_timeout []) \<and>
   sent (snd (request_license cfg_example srv_timeout [])) = [homepage_request cfg_example] \<and>
   fst (request_license_email cfg_example srv_license_failed
          [Sent (homepage_request cfg_example), Sent (login_request cfg_example)]) =
     Inl (Exn LicenseRequestError ''License request failed'') \<and>
   \<not> fst (request_license cfg_example srv_license_failed []) \<and>
   sent (snd (request_license cfg_example srv_license_failed [])) =
     [homepage_request cfg_example, login_request cfg_example, license_request cfg_example]"
  using workflow_stops_at_first_failure [of cfg_example srv_login_rejected "[]"]
    workflow_stops_at_first_failure [of cfg_example srv_timeout "[]"]
    workflow_stops_at_first_failure [of cfg_example srv_license_failed "[]"]
  by (simp add: srv_login_rejected_def srv_timeout_def srv_license_failed_def
      establish_session_scripted_returns establish_session_scripted_raises
      login_scripted_returns request_license_email_scripted_returns contains_examples
      ex_bool_eq)

text \<open>
  C4: \<open>request_license\<close> returns \<open>True\<close> exactly when the three steps raise nothing. For
  every exception \<open>e\<close> that they raise it returns \<open>False\<close>, and the last thing it does is to
  log the summary with the category of \<open>e\<close> and its message: \<open>Network error\<close>,
  \<open>Authentication failed\<close> and \<open>License request failed\<close> for the three classes of
  \<open>exceptions.py\<close>, \<open>Unexpected error\<close> for every other class. The exceptions of the
  model are the instances of \<open>Exception\<close>.
\<close>

theorem request_license_reports_every_exception:
  "(fst (request_license cfg srv tr) \<longleftrightarrow> fst (workflow_steps cfg srv tr) = Inr ()) \<and>
   (\<forall>e. fst (workflow_steps cfg srv tr) = Inl e \<longrightarrow>
      \<not> fst (request_license cfg srv tr) \<and>
      last (snd (request_license cfg srv tr)) =
        Logged logger_name ERROR
          (''=== LICENSE REQUEST FAILED ===\<newline>Error: '' @
           (if cls e = NetworkError then ''Network error''
            else if cls e = AuthenticationError then ''Authentication failed''
            else if cls e = LicenseRequestError then ''License request failed''
            else ''Unexpected error'') @
           ''\<newline>Message: '' @ msg e))"
proof (intro conjI allI impI)
  show "fst (request_license cfg srv tr) \<longleftrightarrow> fst (workflow_steps cfg srv tr) = Inr ()"
    by (rule request_license_fst_steps)
next
  fix e
  assume e: "fst (workflow_steps cfg srv tr) = Inl e"
  then show "\<not> fst (request_license cfg srv tr)"
    by (simp add: request_license_fst_steps)
next
  fix e
  assume e: "fst (workflow_steps cfg srv tr) = Inl e"
  let ?start = "info ''Starting Nexacro license request workflow'' tr @ [SessionCreated]"
  have "fst (workflow_steps cfg srv ?start) = Inl e"
    using e workflow_steps_cong [of ?start tr cfg srv] by simp
  then obtain tr1 where steps: "workflow_steps cfg srv ?start = (Inl e, tr1)"
    by (cases "workflow_steps cfg srv ?start") simp
  show "last (snd (request_license cfg srv tr)) =
        Logged logger_name ERROR
          (''=== LICENSE REQUEST FAILED ===\<newline>Error: '' @
           (if cls e = NetworkError then ''Network error''
            else if cls e = AuthenticationError then ''Authentication failed''
            else if cls e = LicenseRequestError then ''License request failed''
            else ''Unexpected error'') @
           ''\<newline>Message: '' @ msg e)"
    unfolding request_license_def steps
    by (simp add: log_request_summary_def error_def dict_get_def)
qed

theorem request_license_reports_every_exception_witness:
  "fst (workflow_steps cfg_example srv_timeout []) =
     Inl (Exn NetworkError
            ''Request timeout: https://support.tobesoft.co.kr/Support/?menu=home'') \<and>
   \<not> fst (request_license cfg_example srv_timeout []) \<and>
   last (snd (request_license cfg_example srv_timeout [])) =
     Logged ''NexacroLicenseRequester'' ERROR
       (''=== LICENSE REQUEST FAILED ===\<newline>Error: Network error\<newline>'' @
        ''Message: Request timeout: https://support.tobesoft.co.kr/Support/?menu=home'') \<and>
   fst (workflow_steps cfg_example srv_login_rejected []) =
     Inl (Exn AuthenticationError ''Login failed: Invalid credentials or response'') \<and>
   \<not> fst (request_license cfg_example srv_login_rejected []) \<and>
   last (snd (request_license cfg_example srv_login_rejected [])) =
     Logged ''NexacroLicenseRequester'' ERROR
       (''=== LICENSE REQUEST FAILED ===\<newline>Error: Authentication failed\<newline>'' @
        ''Message: Login failed: Invalid credentials or response'') \<and>
   fst (workflow_steps cfg_example srv_license_failed []) =
     Inl (Exn LicenseRequestError ''License request failed'') \<and>
   \<not> fst (request_license cfg_example srv_license_failed []) \<and>
   last (snd (request_license cfg_example srv_license_failed [])) =
     Logged ''NexacroLicenseRequester'' ERROR
       (''=== LICENSE REQUEST FAILED ===\<newline>Error: License request failed\<newline>'' @
        ''Message: License request failed'') \<and>
   fst (workflow_steps cfg_example srv_redirects []) =
     Inl (Exn OtherException ''Exceeded 30 redirects.'') \<and>
   \<not> fst (request_license cfg_example srv_redirects []) \<and>
   last (snd (request_license cfg_example srv_redirects [])) =
     Logged ''NexacroLicenseRequester'' ERROR
       (''=== LICENSE REQUEST FAILED ===\<newline>Error: Unexpected error\<newline>'' @
        ''Message: Exceeded 30 redirects.'') \<and>
   fst (workflow_steps cfg_example (replying ''SUCCESS'') []) = Inr () \<and>
   fst (request_license cfg_example (replying ''SUCCESS'') [])"
  using request_license_reports_every_exception [of cfg_example srv_timeout "[]"]
    request_license_reports_every_exception [of cfg_example srv_login_rejected "[]"]
    request_license_reports_every_exception [of cfg_example srv_license_failed "[]"]
    request_license_reports_every_exception [of cfg_example srv_redirects "[]"]
    request_license_reports_every_exception [of cfg_example "replying ''SUCCESS''" "[]"]
  by (simp add: workflow_steps_srv_timeout workflow_steps_srv_login_rejected
      workflow_steps_srv_license_failed workflow_steps_srv_redirects
      workflow_steps_replying_SUCCESS logger_name_def homepage_url_cfg_example)

text \<open>
  C8: the exit code of \<open>main\<close> is 0 exactly when the configuration loads and validates, the
  logger is set up and \<open>request_license\<close> returns \<open>True\<close>. It is 1 in every other case: when
  \<open>from_env\<close> or \<open>validate\<close> raises, when setting up the logger raises, and when
  \<open>request_license\<close> returns \<open>False\<close>.
\<close>

theorem main_exit_code:
  "(fst (main env fault srv tr) = 0 \<longleftrightarrow>
      (\<exists>cfg. from_env env = Inr cfg \<and> validate cfg = Inr () \<and> fault = None \<and>
         fst (request_license cfg srv tr))) \<and>
   (fst (main env fault srv tr) = 0 \<or> fst (main env fault srv tr) = 1) \<and>
   ((\<exists>e. from_env env = Inl e) \<longrightarrow> fst (main env fault srv tr) = 1) \<and>
   ((\<exists>cfg e. from_env env = Inr cfg \<and> validate cfg = Inl e) \<longrightarrow>
      fst (main env fault srv tr) = 1) \<and>
   ((\<exists>e. fault = Some e) \<longrightarrow> fst (main env fault srv tr) = 1) \<and>
   ((\<exists>cfg. from_env env = Inr cfg \<and> validate cfg = Inr () \<and> fault = None \<and>
       \<not> fst (request_license cfg srv tr)) \<longrightarrow>
      fst (main env fault srv tr) = 1)"
  by (auto simp: main_def main_except_def setup_logger_def
      split: sum.splits option.splits prod.splits)

theorem main_exit_code_witness:
  "from_env env_complete = Inr cfg_example \<and>
   validate cfg_example = Inr () \<and>
   fst (request_license cfg_example (replying ''SUCCESS'') []) \<and>
   fst (main env_complete None (replying ''SUCCESS'') []) = 0 \<and>
   \<not> fst (request_license cfg_example (replying ''FAIL'') []) \<and>
   fst (main env_complete None (replying ''FAIL'') []) = 1 \<and>
   from_env env_two_missing =
     Inl (Exn ValueError
           ''Missing required environment variables: NEXACRO_USER_PASS, NEXACRO_EMAIL'') \<and>
   fst (main env_two_missing None (replying ''SUCCESS'') []) = 1 \<and>
   from_env env_bad_email = Inr (Config ''dev'' ''secret'' ''dev'' ''dev.example.com'') \<and>
   validate (Config ''dev'' ''secret'' ''dev'' ''dev.example.com'') =
     Inl (Exn ValueError ''Invalid email format: dev.example.com'') \<and>
   fst (main env_bad_email None (replying ''SUCCESS'') []) = 1 \<and>
   fst (main env_complete (Some (Exn OtherException ''Permission denied: logs''))
          (replying ''SUCCESS'') []) = 1"
  using main_exit_code [of env_complete None "replying ''SUCCESS''" "[]"]
    main_exit_code [of env_complete None "replying ''FAIL''" "[]"]
    main_exit_code [of env_two_missing None "replying ''SUCCESS''" "[]"]
    main_exit_code [of env_bad_email None "replying ''SUCCESS''" "[]"]
    main_exit_code [of env_complete "Some (Exn OtherException ''Permission denied: logs'')"
      "replying ''SUCCESS''" "[]"]
  by (simp add: from_env_env_complete validate_cfg_example from_env_env_two_missing
      from_env_env_bad_email validate_bad_email request_license_fst_steps
      workflow_steps_replying_SUCCESS workflow_steps_replying_FAIL)

end
